theory Spec2Isabelle
  imports Complex_Main
begin

section \<open>Data model\<close>

text \<open>
  The agent's decision engine is written in Python. Integers are Python's unbounded
  integers (\<open>int\<close>). Python floats are idealised as exact reals: the score of a contract,
  the value density of a ship offer and the wall clock \<open>time.time()\<close> are \<open>real\<close>, so
  rounding is not part of the model. An exception that leaves a modelled function is a
  value of \<open>py_error\<close>: the \<open>TypeError\<close> of a comparison of instants, the \<open>KeyError\<close> of a
  dictionary read, and \<open>ApiError\<close> for whatever a remote call or the parsing of its
  response raises. An exception that a function catches itself is the branch of the model
  that its handler takes.
\<close>

datatype py_error = TypeError | KeyError | ApiError

datatype AgentState =
    INITIALIZE | ASSESS_SITUATION | NEGOTIATE_CONTRACT | ACCEPT_CONTRACT
  | PLAN_FULFILLMENT | ACQUIRE_RESOURCES | EXECUTE_CONTRACT | DELIVER_GOODS
  | COMPLETE_CONTRACT | EVALUATE_PERFORMANCE | ERROR_RECOVERY

subsection \<open>Instants\<close>

text \<open>
  A Python \<open>datetime\<close> is either naive (no time zone) or aware. The number is the
  instant in microseconds, the resolution of \<open>datetime\<close>. \<open>datetime.now()\<close> is naive;
  \<open>datetime.fromisoformat\<close> of a string that ends in \<open>Z\<close> (rewritten to \<open>+00:00\<close> by the
  parsers of models/contract.py) is aware. Comparing or subtracting a naive and an aware
  \<open>datetime\<close> raises \<open>TypeError\<close>.
\<close>

datatype datetime = Naive int | Aware int

fun instant :: "datetime \<Rightarrow> int" where
  "instant (Naive t) = t"
| "instant (Aware t) = t"

fun is_naive :: "datetime \<Rightarrow> bool" where
  "is_naive (Naive t) = True"
| "is_naive (Aware t) = False"

text \<open>\<open>a > b\<close> on two \<open>datetime\<close> values.\<close>

fun dt_gt :: "datetime \<Rightarrow> datetime \<Rightarrow> py_error + bool" where
  "dt_gt (Naive a) (Naive b) = Inr (b < a)"
| "dt_gt (Aware a) (Aware b) = Inr (b < a)"
| "dt_gt (Naive a) (Aware b) = Inl TypeError"
| "dt_gt (Aware a) (Naive b) = Inl TypeError"

text \<open>\<open>(a - b).total_seconds()\<close> on two \<open>datetime\<close> values.\<close>

fun dt_sub_seconds :: "datetime \<Rightarrow> datetime \<Rightarrow> py_error + real" where
  "dt_sub_seconds (Naive a) (Naive b) = Inr (real_of_int (a - b) / 1000000)"
| "dt_sub_seconds (Aware a) (Aware b) = Inr (real_of_int (a - b) / 1000000)"
| "dt_sub_seconds (Naive a) (Aware b) = Inl TypeError"
| "dt_sub_seconds (Aware a) (Naive b) = Inl TypeError"

subsection \<open>Contracts (models/contract.py)\<close>

datatype ContractType = PROCUREMENT | TRANSPORT | SHUTTLE

datatype ContractStatus = AVAILABLE | ACCEPTED | FULFILLED | FAILED

record ContractDelivery =
  trade_symbol :: string
  destination_symbol :: string
  units_required :: int
  units_fulfilled :: int

definition is_completed :: "ContractDelivery \<Rightarrow> bool" where
  "is_completed d = (units_required d \<le> units_fulfilled d)"

definition remaining_units :: "ContractDelivery \<Rightarrow> int" where
  "remaining_units d = max 0 (units_required d - units_fulfilled d)"

record ContractTerms =
  deadline :: datetime
  payment_on_accepted :: int
  payment_on_fulfilled :: int
  deliveries :: "ContractDelivery list"

definition total_payment :: "ContractTerms \<Rightarrow> int" where
  "total_payment t = payment_on_accepted t + payment_on_fulfilled t"

text \<open>\<open>ContractTerms.is_expired\<close>: \<open>datetime.now() > self.deadline\<close>; \<open>now\<close> is the clock.\<close>

definition terms_is_expired :: "int \<Rightarrow> ContractTerms \<Rightarrow> py_error + bool" where
  "terms_is_expired now t = dt_gt (Naive now) (deadline t)"

record Contract =
  contract_id :: string
  faction_symbol :: string
  contract_type :: ContractType
  terms :: ContractTerms
  accepted :: bool
  fulfilled :: bool
  expiration :: "datetime option"

text \<open>
  \<open>Contract.is_expired\<close>: when an expiration instant is set it alone decides, otherwise
  the deadline of the terms does.
\<close>

definition is_expired :: "int \<Rightarrow> Contract \<Rightarrow> py_error + bool" where
  "is_expired now c =
     (case expiration c of
        Some e \<Rightarrow> dt_gt (Naive now) e
      | None \<Rightarrow> terms_is_expired now (terms c))"

text \<open>\<open>Contract.status\<close>, a property computed from the record on every read.\<close>

definition status :: "int \<Rightarrow> Contract \<Rightarrow> py_error + ContractStatus" where
  "status now c =
     (if fulfilled c then Inr FULFILLED
      else if accepted c then Inr ACCEPTED
      else (case is_expired now c of
              Inl e \<Rightarrow> Inl e
            | Inr expired \<Rightarrow> if expired then Inr FAILED else Inr AVAILABLE))"

definition all_deliveries_completed :: "Contract \<Rightarrow> bool" where
  "all_deliveries_completed c = list_all is_completed (deliveries (terms c))"

text \<open>
  \<open>Contract.calculate_profitability_score\<close>. The three penalties are returned before the
  deadline is subtracted from the clock, so a \<open>TypeError\<close> of the subtraction is only
  reached by a contract that is not expired, fits and is profitable. The two readings of
  \<open>datetime.now()\<close> in one call, for the expiry test and for the time remaining, are the
  one clock reading \<open>now\<close>.
\<close>

definition calculate_profitability_score ::
  "int \<Rightarrow> Contract \<Rightarrow> int \<Rightarrow> int \<Rightarrow> py_error + real" where
  "calculate_profitability_score now c cargo_capacity estimated_costs =
     (case is_expired now c of
        Inl e \<Rightarrow> Inl e
      | Inr expired \<Rightarrow>
          if expired then Inr (- 1000)
          else
            let total_units_needed = sum_list (map remaining_units (deliveries (terms c))) in
            if cargo_capacity < total_units_needed then Inr (- 500)
            else
              let profit = total_payment (terms c) - estimated_costs in
              if profit \<le> 0 then Inr (- 100)
              else
                let profit_per_unit = real_of_int profit / real_of_int (max 1 total_units_needed);
                    profit_margin = real_of_int profit / real_of_int (max 1 (total_payment (terms c)))
                in (case dt_sub_seconds (deadline (terms c)) (Naive now) of
                      Inl e \<Rightarrow> Inl e
                    | Inr time_remaining \<Rightarrow>
                        let time_factor = min 1 (time_remaining / 86400)
                        in Inr (profit_per_unit * profit_margin * time_factor * 100)))"

text \<open>
  The vocabulary of the specification, for stating what the score and the status are.
  \<open>expiry_instant\<close> is the instant the expiry check consults, \<open>expired_at\<close> says that the
  clock is past it, \<open>naive_instants\<close> that every instant of the contract can be compared
  with \<open>datetime.now()\<close>.
\<close>

definition expiry_instant :: "Contract \<Rightarrow> datetime" where
  "expiry_instant c = (case expiration c of Some e \<Rightarrow> e | None \<Rightarrow> deadline (terms c))"

definition expired_at :: "int \<Rightarrow> Contract \<Rightarrow> bool" where
  "expired_at now c = (instant (expiry_instant c) < now)"

definition past_deadline :: "int \<Rightarrow> Contract \<Rightarrow> bool" where
  "past_deadline now c = (instant (deadline (terms c)) < now)"

definition naive_instants :: "Contract \<Rightarrow> bool" where
  "naive_instants c =
     (is_naive (deadline (terms c)) \<and>
      (case expiration c of Some e \<Rightarrow> is_naive e | None \<Rightarrow> True))"

definition total_remaining_units :: "Contract \<Rightarrow> int" where
  "total_remaining_units c = sum_list (map remaining_units (deliveries (terms c)))"

definition total_units_required :: "Contract \<Rightarrow> int" where
  "total_units_required c = sum_list (map units_required (deliveries (terms c)))"

definition seconds_to_deadline :: "int \<Rightarrow> Contract \<Rightarrow> real" where
  "seconds_to_deadline now c = real_of_int (instant (deadline (terms c)) - now) / 1000000"

text \<open>
  The score of a profitable contract as the specification writes it, from the profit,
  the units still needed, the total payment and the seconds left to the deadline.
\<close>

definition score_formula :: "int \<Rightarrow> int \<Rightarrow> int \<Rightarrow> real \<Rightarrow> real" where
  "score_formula profit units_needed payment seconds =
     (real_of_int profit / real_of_int (max 1 units_needed))
       * (real_of_int profit / real_of_int (max 1 payment))
       * min 1 (seconds / 86400) * 100"

text \<open>
  Scenario B of the specification: 1000 credits on acceptance, 4000 on fulfilment, one
  delivery of 50 units with none fulfilled, the deadline two days after \<open>now\<close>, and the
  contract not expired.
\<close>

definition scenario_b :: "int \<Rightarrow> Contract \<Rightarrow> bool" where
  "scenario_b now c =
     (payment_on_accepted (terms c) = 1000 \<and> payment_on_fulfilled (terms c) = 4000 \<and>
      map (\<lambda>d. (units_required d, units_fulfilled d)) (deliveries (terms c)) = [(50, 0)] \<and>
      deadline (terms c) = Naive (now + 2 * 86400 * 1000000) \<and>
      is_expired now c = Inr False)"

text \<open>
  A contract built from the fields the decisions read: deadline, expiration, the two
  flags, the two payments and, per delivery, the units required and fulfilled.
\<close>

definition contract_of ::
  "datetime \<Rightarrow> datetime option \<Rightarrow> bool \<Rightarrow> bool \<Rightarrow> int \<Rightarrow> int \<Rightarrow> (int \<times> int) list \<Rightarrow> Contract" where
  "contract_of d e acc ful on_accepted on_fulfilled ds =
     \<lparr>contract_id = ''contract'', faction_symbol = ''COSMIC'', contract_type = PROCUREMENT,
      terms = \<lparr>deadline = d, payment_on_accepted = on_accepted,
               payment_on_fulfilled = on_fulfilled,
               deliveries = map (\<lambda>(r, f). \<lparr>trade_symbol = ''IRON_ORE'',
                                             destination_symbol = ''X1-DF55-A1'',
                                             units_required = r, units_fulfilled = f\<rparr>) ds\<rparr>,
      accepted = acc, fulfilled = ful, expiration = e\<rparr>"

subsection \<open>Ships (models/ship.py)\<close>

text \<open>
  Only the fields that the modelled code reads are kept. The source's field \<open>status\<close> of
  \<open>ShipNav\<close>, \<open>current\<close> and \<open>capacity\<close> of \<open>ShipFuel\<close> and \<open>symbol\<close> of \<open>AgentData\<close> carry a
  prefix here, since a record field is a constant of the theory.
\<close>

datatype ShipNavStatus = IN_TRANSIT | IN_ORBIT | DOCKED

record ShipNav =
  system_symbol :: string
  waypoint_symbol :: string
  nav_status :: ShipNavStatus

definition is_in_transit :: "ShipNav \<Rightarrow> bool" where
  "is_in_transit n = (nav_status n = IN_TRANSIT)"

definition is_docked :: "ShipNav \<Rightarrow> bool" where
  "is_docked n = (nav_status n = DOCKED)"

record ShipCargo =
  capacity :: int
  units :: int

record ShipFuel =
  fuel_current :: int
  fuel_capacity :: int

definition percentage :: "ShipFuel \<Rightarrow> real" where
  "percentage f =
     (if fuel_capacity f = 0 then 0
      else (real_of_int (fuel_current f) / real_of_int (fuel_capacity f)) * 100)"

definition needs_refuel :: "ShipFuel \<Rightarrow> bool" where
  "needs_refuel f = (percentage f < 25)"

record Ship =
  symbol :: string
  nav :: ShipNav
  cargo :: ShipCargo
  fuel :: ShipFuel

definition cargo_capacity :: "Ship \<Rightarrow> int" where
  "cargo_capacity s = capacity (cargo s)"

subsection \<open>Agent snapshot and shared context (models/agent_data.py)\<close>

record AgentData =
  account_id :: string
  agent_symbol :: string
  headquarters :: string
  credits :: int
  starting_faction :: string
  ship_count :: int

text \<open>
  \<open>strategy_config\<close> is a dictionary. The modelled code reads and writes three of its
  keys; a field is \<open>None\<close> when the key is absent.
\<close>

record StrategyConfig =
  safety_credit_reserve :: "int option"
  last_acquire_attempt :: "real option"
  acquire_failed :: "bool option"

record AgentContext =
  agent_data :: "AgentData option"
  current_contract :: "Contract option"
  ships :: "Ship list"
  strategy_config :: StrategyConfig

text \<open>
  \<open>AgentContext.update_agent_data\<close>: the argument is the parsed \<open>data\<close> member of the
  response, \<open>None\<close> when the response has none.
\<close>

definition update_agent_data :: "AgentContext \<Rightarrow> AgentData option \<Rightarrow> AgentContext" where
  "update_agent_data ctx response_data =
     (case response_data of
        None \<Rightarrow> ctx
      | Some a \<Rightarrow> ctx\<lparr>agent_data := Some a\<rparr>)"

text \<open>
  \<open>AgentContext.has_sufficient_credits\<close> indexes the dictionary, so an absent reserve is
  a \<open>KeyError\<close>; without a snapshot the answer is \<open>False\<close> before the dictionary is read.
\<close>

definition has_sufficient_credits :: "AgentContext \<Rightarrow> int \<Rightarrow> py_error + bool" where
  "has_sufficient_credits ctx amount =
     (case agent_data ctx of
        None \<Rightarrow> Inr False
      | Some a \<Rightarrow>
          (case safety_credit_reserve (strategy_config ctx) of
             None \<Rightarrow> Inl KeyError
           | Some reserve \<Rightarrow> Inr (amount \<le> credits a - reserve)))"

definition get_total_cargo_capacity :: "AgentContext \<Rightarrow> int" where
  "get_total_cargo_capacity ctx = sum_list (map cargo_capacity (ships ctx))"

section \<open>Contract negotiator (states/negotiate_contract.py)\<close>

text \<open>\<open>max(xs, default=0)\<close>.\<close>

fun py_max :: "int list \<Rightarrow> int" where
  "py_max [] = 0"
| "py_max (x # xs) = fold max xs x"

text \<open>\<open>int(x)\<close> of a float: truncation towards zero.\<close>

definition py_int :: "real \<Rightarrow> int" where
  "py_int x = (if 0 \<le> x then \<lfloor>x\<rfloor> else \<lceil>x\<rceil>)"

definition estimate_contract_cost :: "Contract \<Rightarrow> int" where
  "estimate_contract_cost c =
     (let total_units = sum_list (map units_required (deliveries (terms c)));
          estimated_goods_cost = total_units * 100;
          estimated_fuel_cost = py_int (real_of_int (total_payment (terms c)) * (1 / 10))
      in estimated_goods_cost + estimated_fuel_cost)"

text \<open>
  The body of the loop of \<open>_filter_contracts_by_capabilities\<close>: \<open>Inr True\<close> when the
  contract is appended to \<open>suitable_contracts\<close>, \<open>Inr False\<close> when a \<open>continue\<close> skips it.
\<close>

definition capability_check :: "AgentContext \<Rightarrow> int \<Rightarrow> Contract \<Rightarrow> py_error + bool" where
  "capability_check ctx total_cargo_capacity c =
     (let total_units_needed = sum_list (map units_required (deliveries (terms c))) in
      if total_cargo_capacity < total_units_needed then Inr False
      else
        (case has_sufficient_credits ctx (estimate_contract_cost c) of
           Inl e \<Rightarrow> Inl e
         | Inr sufficient \<Rightarrow>
             if \<not> sufficient then Inr False
             else
               let max_delivery_size = py_max (map units_required (deliveries (terms c)));
                   largest_ship_capacity = py_max (map cargo_capacity (ships ctx))
               in if largest_ship_capacity < max_delivery_size
                     \<and> total_cargo_capacity < total_units_needed
                  then Inr False
                  else Inr True))"

fun filter_loop :: "AgentContext \<Rightarrow> int \<Rightarrow> Contract list \<Rightarrow> py_error + Contract list" where
  "filter_loop ctx total_cargo_capacity [] = Inr []"
| "filter_loop ctx total_cargo_capacity (c # cs) =
     (case capability_check ctx total_cargo_capacity c of
        Inl e \<Rightarrow> Inl e
      | Inr keep \<Rightarrow>
          (case filter_loop ctx total_cargo_capacity cs of
             Inl e \<Rightarrow> Inl e
           | Inr suitable \<Rightarrow> Inr (if keep then c # suitable else suitable)))"

definition filter_contracts_by_capabilities ::
  "AgentContext \<Rightarrow> Contract list \<Rightarrow> py_error + Contract list" where
  "filter_contracts_by_capabilities ctx contracts =
     (if ships ctx = [] then Inr []
      else filter_loop ctx (get_total_cargo_capacity ctx) contracts)"

text \<open>
  The counting loop of \<open>_analyze_filtering_reasons\<close>; the accumulator is
  \<open>(capacity_issues, credit_issues, ship_size_issues)\<close>.
\<close>

fun count_issues ::
  "AgentContext \<Rightarrow> int \<Rightarrow> Contract list \<Rightarrow> nat \<times> nat \<times> nat \<Rightarrow> py_error + nat \<times> nat \<times> nat" where
  "count_issues ctx total_cargo_capacity [] acc = Inr acc"
| "count_issues ctx total_cargo_capacity (c # cs) (capacity_issues, credit_issues, ship_size_issues) =
     (let total_units_needed = sum_list (map units_required (deliveries (terms c)));
          estimated_cost = estimate_contract_cost c;
          max_delivery_size = py_max (map units_required (deliveries (terms c)));
          capacity_issues' =
            (if total_cargo_capacity < total_units_needed then capacity_issues + 1
             else capacity_issues)
      in (case has_sufficient_credits ctx estimated_cost of
            Inl e \<Rightarrow> Inl e
          | Inr sufficient \<Rightarrow>
              let credit_issues' = (if \<not> sufficient then credit_issues + 1 else credit_issues);
                  largest_ship_capacity = py_max (map cargo_capacity (ships ctx));
                  ship_size_issues' =
                    (if largest_ship_capacity < max_delivery_size
                        \<and> total_cargo_capacity < total_units_needed
                     then ship_size_issues + 1 else ship_size_issues)
              in count_issues ctx total_cargo_capacity cs
                   (capacity_issues', credit_issues', ship_size_issues')))"

text \<open>\<open>_analyze_filtering_reasons\<close>; \<open>now_ts\<close> is \<open>time.time()\<close>, in seconds.\<close>

definition analyze_filtering_reasons ::
  "AgentContext \<Rightarrow> real \<Rightarrow> Contract list \<Rightarrow> py_error + AgentState" where
  "analyze_filtering_reasons ctx now_ts contracts =
     (if contracts = [] then Inr NEGOTIATE_CONTRACT
      else
        (case count_issues ctx (get_total_cargo_capacity ctx) contracts (0, 0, 0) of
           Inl e \<Rightarrow> Inl e
         | Inr (capacity_issues, credit_issues, ship_size_issues) \<Rightarrow>
             if (0 < capacity_issues \<or> 0 < ship_size_issues)
                \<and> (case agent_data ctx of None \<Rightarrow> False | Some a \<Rightarrow> 50000 < credits a)
                \<and> (let last_attempt =
                          (case last_acquire_attempt (strategy_config ctx) of
                             None \<Rightarrow> 0 | Some t \<Rightarrow> t);
                        failed =
                          (case acquire_failed (strategy_config ctx) of
                             None \<Rightarrow> False | Some b \<Rightarrow> b)
                    in \<not> failed \<or> 3600 < now_ts - last_attempt)
             then Inr ACQUIRE_RESOURCES
             else Inr NEGOTIATE_CONTRACT))"

section \<open>Situation assessor (states/assess_situation.py)\<close>

text \<open>
  The two list comprehensions of \<open>_update_contracts\<close>. \<open>and\<close> short-circuits, so
  \<open>is_expired\<close> is evaluated only for the contracts that pass the tests before it, and an
  exception of one evaluation aborts the comprehension.
\<close>

fun active_contracts :: "int \<Rightarrow> Contract list \<Rightarrow> py_error + Contract list" where
  "active_contracts now [] = Inr []"
| "active_contracts now (c # cs) =
     (if accepted c \<and> \<not> fulfilled c then
        (case is_expired now c of
           Inl e \<Rightarrow> Inl e
         | Inr expired \<Rightarrow>
             (case active_contracts now cs of
                Inl e \<Rightarrow> Inl e
              | Inr rest \<Rightarrow> Inr (if \<not> expired then c # rest else rest)))
      else active_contracts now cs)"

fun available_contracts :: "int \<Rightarrow> Contract list \<Rightarrow> py_error + Contract list" where
  "available_contracts now [] = Inr []"
| "available_contracts now (c # cs) =
     (if \<not> accepted c then
        (case is_expired now c of
           Inl e \<Rightarrow> Inl e
         | Inr expired \<Rightarrow>
             (case available_contracts now cs of
                Inl e \<Rightarrow> Inl e
              | Inr rest \<Rightarrow> Inr (if \<not> expired then c # rest else rest)))
      else available_contracts now cs)"

text \<open>
  \<open>_update_contracts\<close>. The first argument after the clock is what \<open>get_my_contracts\<close>
  gave, parsed: an exception of the call or of the parsing, or the contracts in the
  order of the response. The result is the exception re-raised, if any, and the context
  as the method left it: the assignment to \<open>current_contract\<close> is done before the second
  comprehension runs.
\<close>

definition update_contracts ::
  "int \<Rightarrow> py_error + Contract list \<Rightarrow> AgentContext \<Rightarrow> py_error option \<times> AgentContext" where
  "update_contracts now response ctx =
     (case response of
        Inl e \<Rightarrow> (Some e, ctx)
      | Inr contracts \<Rightarrow>
          (case active_contracts now contracts of
             Inl e \<Rightarrow> (Some e, ctx)
           | Inr active \<Rightarrow>
               let ctx' = ctx\<lparr>current_contract :=
                                 (case active of [] \<Rightarrow> None | first # _ \<Rightarrow> Some first)\<rparr>
               in (case available_contracts now contracts of
                     Inl e \<Rightarrow> (Some e, ctx')
                   | Inr available \<Rightarrow> (None, ctx'))))"

definition determine_next_action :: "AgentContext \<Rightarrow> AgentState" where
  "determine_next_action ctx =
     (if ships ctx = [] then ERROR_RECOVERY
      else (case current_contract ctx of
              Some c \<Rightarrow>
                if all_deliveries_completed c then COMPLETE_CONTRACT else EXECUTE_CONTRACT
            | None \<Rightarrow> NEGOTIATE_CONTRACT))"

text \<open>
  What the three fetches of one assessment give, parsed: the \<open>data\<close> member of the agent
  response (\<open>None\<close> when it has none), the fleet and the contracts.
\<close>

record AssessResponses =
  agent_response :: "py_error + AgentData option"
  ships_response :: "py_error + Ship list"
  contracts_response :: "py_error + Contract list"

text \<open>
  \<open>AssessSituationState.execute\<close>: the next state and the context as the handler left it.
  Every exception of a step ends in \<open>ERROR_RECOVERY\<close>.
\<close>

definition assess_execute ::
  "int \<Rightarrow> AssessResponses \<Rightarrow> AgentContext \<Rightarrow> AgentState \<times> AgentContext" where
  "assess_execute now r ctx =
     (case agent_response r of
        Inl e \<Rightarrow> (ERROR_RECOVERY, ctx)
      | Inr a \<Rightarrow>
          let ctx1 = update_agent_data ctx a in
          (case ships_response r of
             Inl e \<Rightarrow> (ERROR_RECOVERY, ctx1)
           | Inr fleet \<Rightarrow>
               let ctx2 = ctx1\<lparr>ships := fleet\<rparr> in
               (case update_contracts now (contracts_response r) ctx2 of
                  (Some e, ctx3) \<Rightarrow> (ERROR_RECOVERY, ctx3)
                | (None, ctx3) \<Rightarrow> (determine_next_action ctx3, ctx3))))"

section \<open>Resource acquirer (states/acquire_resources.py)\<close>

text \<open>
  An entry of a shipyard's \<open>ships\<close> list. The code reads the price with
  \<open>get('purchasePrice', 0)\<close> and the capacity with \<open>get('cargo', {}).get('capacity', 0)\<close>;
  a field is \<open>None\<close> when the key is absent.
\<close>

record ShipOffer =
  offer_type :: string
  purchasePrice :: "int option"
  offer_capacity :: "int option"

text \<open>An element of the list \<open>_find_shipyards\<close> returns.\<close>

record Shipyard =
  shipyard_waypoint :: string
  shipyard_system :: string
  shipyard_ships :: "ShipOffer list"

record ResourceNeeds =
  need_resources :: bool
  need_cargo_capacity :: bool
  need_fuel :: bool
  min_cargo_needed :: int
  current_capacity :: int
  target_capacity :: int
  ships_needing_fuel :: "Ship list"

definition analyze_resource_needs :: "AgentContext \<Rightarrow> ResourceNeeds" where
  "analyze_resource_needs ctx =
     (let current = get_total_cargo_capacity ctx;
          needing_fuel = filter (\<lambda>ship. needs_refuel (fuel ship)) (ships ctx);
          target = max 60 (current + 20);
          needs = \<lparr>need_resources = False, need_cargo_capacity = False,
                   need_fuel = (0 < length needing_fuel), min_cargo_needed = 0,
                   current_capacity = current, target_capacity = target,
                   ships_needing_fuel = needing_fuel\<rparr>;
          needs1 = (if current < target
                    then needs\<lparr>need_resources := True, need_cargo_capacity := True,
                               min_cargo_needed := target - current\<rparr>
                    else needs);
          needs2 = (if needing_fuel \<noteq> [] then needs1\<lparr>need_resources := True\<rparr> else needs1)
      in needs2)"

text \<open>
  The selection of \<open>_purchase_cargo_ship\<close>. The accumulator is \<open>best_ship\<close> with
  \<open>best_shipyard\<close> (\<open>None\<close> until an offer is taken) and \<open>best_value\<close>. \<open>consider_offer\<close> is
  the body of the inner loop, \<open>scan_shipyard\<close> the inner loop, \<open>select_ship\<close> the outer
  one.
\<close>

definition offer_price :: "ShipOffer \<Rightarrow> int" where
  "offer_price ship_info = (case purchasePrice ship_info of None \<Rightarrow> 0 | Some p \<Rightarrow> p)"

definition offer_cargo :: "ShipOffer \<Rightarrow> int" where
  "offer_cargo ship_info = (case offer_capacity ship_info of None \<Rightarrow> 0 | Some n \<Rightarrow> n)"

definition offer_value :: "ShipOffer \<Rightarrow> real" where
  "offer_value ship_info =
     real_of_int (offer_cargo ship_info) / real_of_int (max (offer_price ship_info) 1)"

definition consider_offer ::
  "int \<Rightarrow> int \<Rightarrow> Shipyard \<Rightarrow> ShipOffer \<Rightarrow>
   (ShipOffer \<times> Shipyard) option \<times> real \<Rightarrow> (ShipOffer \<times> Shipyard) option \<times> real" where
  "consider_offer purchasable_credits min_needed shipyard ship_info best =
     (if purchasable_credits < offer_price ship_info then best
      else if offer_cargo ship_info \<le> 0 then best
      else if offer_cargo ship_info < min_needed then best
      else if snd best < offer_value ship_info
           then (Some (ship_info, shipyard), offer_value ship_info)
           else best)"

definition scan_shipyard ::
  "int \<Rightarrow> int \<Rightarrow> Shipyard \<Rightarrow>
   (ShipOffer \<times> Shipyard) option \<times> real \<Rightarrow> (ShipOffer \<times> Shipyard) option \<times> real" where
  "scan_shipyard purchasable_credits min_needed shipyard best =
     fold (consider_offer purchasable_credits min_needed shipyard) (shipyard_ships shipyard) best"

definition select_ship ::
  "int \<Rightarrow> int \<Rightarrow> Shipyard list \<Rightarrow> (ShipOffer \<times> Shipyard) option" where
  "select_ship purchasable_credits min_needed shipyards =
     fst (fold (scan_shipyard purchasable_credits min_needed) shipyards (None, 0))"

text \<open>
  What the remote calls of one run of the state give. \<open>purchase_ship\<close> answers with an
  exception, with a response that is empty or has no \<open>data\<close> (\<open>NoData\<close>), or with a
  \<open>data\<close> member whose \<open>ship\<close> and \<open>agent\<close> payloads are parsed; a payload is \<open>None\<close> when the
  key is absent or its value is empty. \<open>navigate_ship\<close> answers with an exception or with
  the truth value of its response; \<open>orbit_ship\<close> matters only by the exception it may
  raise. \<open>refuel_ship\<close> is left out: its response is dropped and its exception caught.
\<close>

datatype PurchaseResponse = NoData | Data "Ship option" "AgentData option"

record AcquireResponses =
  orbit_ship :: "py_error option"
  navigate_ship :: "py_error + bool"
  purchase_ship :: "py_error + PurchaseResponse"
  get_my_ships :: "py_error + Ship list"

definition get_ship_at_waypoint :: "AgentContext \<Rightarrow> string \<Rightarrow> Ship option" where
  "get_ship_at_waypoint ctx wp = find (\<lambda>ship. waypoint_symbol (nav ship) = wp) (ships ctx)"

definition move_ship_to_waypoint :: "AcquireResponses \<Rightarrow> AgentContext \<Rightarrow> string \<Rightarrow> bool" where
  "move_ship_to_waypoint api ctx wp =
     (case find (\<lambda>ship. \<not> is_in_transit (nav ship) \<and> \<not> fuel_current (fuel ship) \<le> 0) (ships ctx) of
        None \<Rightarrow> False
      | Some best_ship \<Rightarrow>
          if is_docked (nav best_ship) \<and> orbit_ship api \<noteq> None then False
          else (case navigate_ship api of
                  Inl e \<Rightarrow> False
                | Inr response \<Rightarrow> response))"

text \<open>
  The part of \<open>_execute_ship_purchase\<close> from the purchase call on. A ship of the response
  is appended before the agent payload is read; reading the credits of a context without
  a snapshot raises, which the handler turns into \<open>False\<close> with the ship already appended.
\<close>

definition make_purchase :: "AcquireResponses \<Rightarrow> AgentContext \<Rightarrow> bool \<times> AgentContext" where
  "make_purchase api ctx =
     (case purchase_ship api of
        Inl e \<Rightarrow> (False, ctx)
      | Inr NoData \<Rightarrow> (False, ctx)
      | Inr (Data ship_data agent_payload) \<Rightarrow>
          let ctx1 = (case ship_data of
                        None \<Rightarrow> ctx
                      | Some new_ship \<Rightarrow> ctx\<lparr>ships := ships ctx @ [new_ship]\<rparr>)
          in (case agent_payload of
                None \<Rightarrow> (True, ctx1)
              | Some a \<Rightarrow>
                  (case agent_data ctx1 of
                     None \<Rightarrow> (False, ctx1)
                   | Some old \<Rightarrow> (True, update_agent_data ctx1 (Some a)))))"

definition execute_ship_purchase ::
  "AcquireResponses \<Rightarrow> AgentContext \<Rightarrow> ShipOffer \<Rightarrow> Shipyard \<Rightarrow> bool \<times> AgentContext" where
  "execute_ship_purchase api ctx ship_info shipyard =
     (let wp = shipyard_waypoint shipyard in
      (case get_ship_at_waypoint ctx wp of
         Some ship_at_shipyard \<Rightarrow> make_purchase api ctx
       | None \<Rightarrow>
           if \<not> move_ship_to_waypoint api ctx wp then (False, ctx)
           else (case get_ship_at_waypoint ctx wp of
                   None \<Rightarrow> (False, ctx)
                 | Some ship_at_shipyard \<Rightarrow> make_purchase api ctx)))"

definition purchase_cargo_ship ::
  "AcquireResponses \<Rightarrow> AgentContext \<Rightarrow> Shipyard list \<Rightarrow> int \<Rightarrow> bool \<times> AgentContext" where
  "purchase_cargo_ship api ctx shipyards min_needed =
     (case agent_data ctx of
        None \<Rightarrow> (False, ctx)
      | Some a \<Rightarrow>
          let safety_reserve =
                (case safety_credit_reserve (strategy_config ctx) of
                   None \<Rightarrow> 10000 | Some r \<Rightarrow> r);
              purchasable_credits = credits a - safety_reserve
          in (case select_ship purchasable_credits min_needed shipyards of
                None \<Rightarrow> (False, ctx)
              | Some (best_ship, best_shipyard) \<Rightarrow>
                  execute_ship_purchase api ctx best_ship best_shipyard))"

definition refresh_ship_data :: "AcquireResponses \<Rightarrow> AgentContext \<Rightarrow> AgentContext" where
  "refresh_ship_data api ctx =
     (case get_my_ships api of
        Inl e \<Rightarrow> ctx
      | Inr fleet \<Rightarrow> ctx\<lparr>ships := fleet\<rparr>)"

text \<open>
  \<open>AcquireResourcesState.execute\<close>. \<open>found\<close> is the list \<open>_find_shipyards\<close> returned and
  \<open>now_ts\<close> is \<open>time.time()\<close>. The outcome names the \<open>return\<close> statement that was taken and
  the seconds slept before it, besides the next state and the context.
\<close>

datatype AcquireExit =
  NoResourcesNeeded | NoShipyards | NoShipsInStock | PurchaseFailed | ResourcesAcquired

record AcquireOutcome =
  next_state :: AgentState
  exit_taken :: AcquireExit
  slept :: nat
  context_after :: AgentContext

definition mark_acquire_failed :: "real \<Rightarrow> AgentContext \<Rightarrow> AgentContext" where
  "mark_acquire_failed now_ts ctx =
     ctx\<lparr>strategy_config :=
           (strategy_config ctx)\<lparr>last_acquire_attempt := Some now_ts,
                                  acquire_failed := Some True\<rparr>\<rparr>"

definition acquire_execute ::
  "real \<Rightarrow> Shipyard list \<Rightarrow> AcquireResponses \<Rightarrow> AgentContext \<Rightarrow> AcquireOutcome" where
  "acquire_execute now_ts found api ctx =
     (let resource_needs = analyze_resource_needs ctx in
      if \<not> need_resources resource_needs then
        \<lparr>next_state = NEGOTIATE_CONTRACT, exit_taken = NoResourcesNeeded, slept = 0,
         context_after = ctx\<rparr>
      else if found = [] then
        \<lparr>next_state = NEGOTIATE_CONTRACT, exit_taken = NoShipyards, slept = 60,
         context_after = mark_acquire_failed now_ts ctx\<rparr>
      else
        let shipyards_with_ships = filter (\<lambda>sy. 0 < length (shipyard_ships sy)) found in
        if shipyards_with_ships = [] then
          \<lparr>next_state = NEGOTIATE_CONTRACT, exit_taken = NoShipsInStock, slept = 300,
           context_after = mark_acquire_failed now_ts ctx\<rparr>
        else
          let (success, ctx1) =
                (if need_cargo_capacity resource_needs
                 then purchase_cargo_ship api ctx shipyards_with_ships
                        (min_cargo_needed resource_needs)
                 else (True, ctx))
          in if \<not> success then
               \<lparr>next_state = NEGOTIATE_CONTRACT, exit_taken = PurchaseFailed, slept = 30,
                context_after = ctx1\<rparr>
             else
               \<lparr>next_state = NEGOTIATE_CONTRACT, exit_taken = ResourcesAcquired, slept = 0,
                context_after = refresh_ship_data api ctx1\<rparr>)"

section \<open>Vocabulary for the acquirer and concrete inputs\<close>

text \<open>
  The offers in the order the two loops of \<open>_purchase_cargo_ship\<close> meet them, each with
  its shipyard; the three tests an offer must pass; the safety reserve as the purchase
  reads it (\<open>get\<close> with the default 10000); and one step of the selection on a pair.
\<close>

definition all_offers :: "Shipyard list \<Rightarrow> (ShipOffer \<times> Shipyard) list" where
  "all_offers shipyards =
     concat (map (\<lambda>sy. map (\<lambda>ship_info. (ship_info, sy)) (shipyard_ships sy)) shipyards)"

definition qualifies :: "int \<Rightarrow> int \<Rightarrow> ShipOffer \<Rightarrow> bool" where
  "qualifies purchasable_credits min_needed ship_info =
     (offer_price ship_info \<le> purchasable_credits \<and> 0 < offer_cargo ship_info \<and>
      min_needed \<le> offer_cargo ship_info)"

definition safety_reserve :: "AgentContext \<Rightarrow> int" where
  "safety_reserve ctx =
     (case safety_credit_reserve (strategy_config ctx) of None \<Rightarrow> 10000 | Some r \<Rightarrow> r)"

definition consider_pair ::
  "int \<Rightarrow> int \<Rightarrow> ShipOffer \<times> Shipyard \<Rightarrow>
   (ShipOffer \<times> Shipyard) option \<times> real \<Rightarrow> (ShipOffer \<times> Shipyard) option \<times> real" where
  "consider_pair p m x best = consider_offer p m (snd x) (fst x) best"

text \<open>
  \<open>first_best\<close>: the chosen offer qualifies, every qualifying offer met before it has a
  strictly smaller value and every qualifying offer met after it has at most its value.
\<close>

definition first_best ::
  "int \<Rightarrow> int \<Rightarrow> (ShipOffer \<times> Shipyard) list \<Rightarrow> ShipOffer \<times> Shipyard \<Rightarrow> bool" where
  "first_best p m offers chosen =
     (qualifies p m (fst chosen) \<and>
      (\<exists>before after. offers = before @ chosen # after \<and>
         (\<forall>x \<in> set before. qualifies p m (fst x) \<longrightarrow>
              offer_value (fst x) < offer_value (fst chosen)) \<and>
         (\<forall>x \<in> set after. qualifies p m (fst x) \<longrightarrow>
              offer_value (fst x) \<le> offer_value (fst chosen))))"

text \<open>
  \<open>records_failure\<close>: the second context is the first one with the failure flag set and
  the attempt stamped with \<open>now_ts\<close>, and nothing else changed.
\<close>

definition records_failure :: "real \<Rightarrow> AgentContext \<Rightarrow> AgentContext \<Rightarrow> bool" where
  "records_failure now_ts ctx ctx' =
     (acquire_failed (strategy_config ctx') = Some True \<and>
      last_acquire_attempt (strategy_config ctx') = Some now_ts \<and>
      safety_credit_reserve (strategy_config ctx') = safety_credit_reserve (strategy_config ctx) \<and>
      agent_data ctx' = agent_data ctx \<and> current_contract ctx' = current_contract ctx \<and>
      ships ctx' = ships ctx)"

text \<open>Builders of concrete ships, snapshots, contexts, offers, shipyards and responses.\<close>

definition ship_of :: "string \<Rightarrow> string \<Rightarrow> ShipNavStatus \<Rightarrow> int \<Rightarrow> int \<Rightarrow> int \<Rightarrow> Ship" where
  "ship_of name wp st cap fuel_now fuel_max =
     \<lparr>symbol = name,
      nav = \<lparr>system_symbol = ''X1-DF55'', waypoint_symbol = wp, nav_status = st\<rparr>,
      cargo = \<lparr>capacity = cap, units = 0\<rparr>,
      fuel = \<lparr>fuel_current = fuel_now, fuel_capacity = fuel_max\<rparr>\<rparr>"

definition agent_of :: "int \<Rightarrow> AgentData" where
  "agent_of c =
     \<lparr>account_id = ''account'', agent_symbol = ''AGENT'', headquarters = ''X1-DF55-A1'',
      credits = c, starting_faction = ''COSMIC'', ship_count = 1\<rparr>"

definition context_of :: "AgentData option \<Rightarrow> Ship list \<Rightarrow> int option \<Rightarrow> AgentContext" where
  "context_of a fleet reserve =
     \<lparr>agent_data = a, current_contract = None, ships = fleet,
      strategy_config = \<lparr>safety_credit_reserve = reserve, last_acquire_attempt = None,
                         acquire_failed = None\<rparr>\<rparr>"

definition offer_of :: "string \<Rightarrow> int option \<Rightarrow> int option \<Rightarrow> ShipOffer" where
  "offer_of name price cap = \<lparr>offer_type = name, purchasePrice = price, offer_capacity = cap\<rparr>"

definition yard_of :: "string \<Rightarrow> ShipOffer list \<Rightarrow> Shipyard" where
  "yard_of wp offers =
     \<lparr>shipyard_waypoint = wp, shipyard_system = ''X1-DF55'', shipyard_ships = offers\<rparr>"

definition responses_of :: "py_error + PurchaseResponse \<Rightarrow> AcquireResponses" where
  "responses_of purchase =
     \<lparr>orbit_ship = None, navigate_ship = Inr True, purchase_ship = purchase,
      get_my_ships = Inl ApiError\<rparr>"

text \<open>
  A fleet of one docked, fuelled ship of capacity 40 at the shipyard waypoint, owned by an
  agent with 100000 credits and the default reserve of 10000.
\<close>

definition home_context :: AgentContext where
  "home_context =
     context_of (Some (agent_of 100000))
       [ship_of ''AGENT-1'' ''X1-DF55-A1'' DOCKED 40 400 400] (Some 10000)"

text \<open>
  Offers and shipyards for the selection. The probe carries nothing and the freighter is
  beyond a budget of 90000; the drone offers 30 units for 30000, both haulers 80 for
  50000 and the shuttle 40 for 25000, the same value as a hauler.
\<close>

definition probe :: ShipOffer where
  "probe = offer_of ''SHIP_PROBE'' (Some 20000) (Some 0)"

definition drone :: ShipOffer where
  "drone = offer_of ''SHIP_MINING_DRONE'' (Some 30000) (Some 30)"

definition hauler :: ShipOffer where
  "hauler = offer_of ''SHIP_LIGHT_HAULER'' (Some 50000) (Some 80)"

definition shuttle :: ShipOffer where
  "shuttle = offer_of ''SHIP_LIGHT_SHUTTLE'' (Some 25000) (Some 40)"

definition freighter :: ShipOffer where
  "freighter = offer_of ''SHIP_HEAVY_FREIGHTER'' (Some 200000) (Some 300)"

definition yard_a :: Shipyard where
  "yard_a = yard_of ''X1-DF55-A1'' [probe, drone, hauler]"

definition yard_b :: Shipyard where
  "yard_b = yard_of ''X1-DF55-B2'' [freighter, shuttle, hauler]"

text \<open>
  Offers whose price is below 1: one without a price, read as 0, one with the price -1,
  and for comparison one that sells 5 units for 1 credit.
\<close>

definition unpriced :: ShipOffer where
  "unpriced = offer_of ''SHIP_UNPRICED'' None (Some 1)"

definition rebate :: ShipOffer where
  "rebate = offer_of ''SHIP_REBATE'' (Some (- 1)) (Some 10)"

definition cheap :: ShipOffer where
  "cheap = offer_of ''SHIP_CHEAP'' (Some 1) (Some 5)"

text \<open>
  Contexts and contracts for the negotiator. \<open>twin_context\<close> owns two ships of capacity
  40 and 100000 credits; \<open>boundary_context\<close> and \<open>expansion_context\<close> own one ship of
  capacity 100 with 11500 and 60000 credits; the reserve is 10000 throughout. The
  contracts are open, with naive instants: one delivery of 60 units for 5000 credits, one
  of 200 units for 5000, one of 50 units for 1000000, and one of 10 units for 5005.
\<close>

definition twin_context :: AgentContext where
  "twin_context =
     context_of (Some (agent_of 100000))
       [ship_of ''AGENT-1'' ''X1-DF55-A1'' DOCKED 40 400 400,
        ship_of ''AGENT-2'' ''X1-DF55-A1'' IN_ORBIT 40 400 400] (Some 10000)"

definition boundary_context :: AgentContext where
  "boundary_context =
     context_of (Some (agent_of 11500))
       [ship_of ''AGENT-1'' ''X1-DF55-A1'' DOCKED 100 400 400] (Some 10000)"

definition expansion_context :: AgentContext where
  "expansion_context =
     context_of (Some (agent_of 60000))
       [ship_of ''AGENT-1'' ''X1-DF55-A1'' DOCKED 100 400 400] (Some 10000)"

definition split_contract :: Contract where
  "split_contract = contract_of (Naive 172800000000) None False False 1000 4000 [(60, 0)]"

definition oversized_contract :: Contract where
  "oversized_contract = contract_of (Naive 172800000000) None False False 1000 4000 [(200, 0)]"

definition costly_contract :: Contract where
  "costly_contract =
     contract_of (Naive 172800000000) None False False 200000 800000 [(50, 0)]"

definition boundary_contract :: Contract where
  "boundary_contract = contract_of (Naive 172800000000) None False False 1005 4000 [(10, 0)]"

text \<open>
  For the assessor: the three fetches answered without an exception, and an accepted,
  unfulfilled contract as the parser builds it from timestamps that end in \<open>Z\<close>: aware
  instants, the expiration one day and the deadline two days after the clock reading 0.
\<close>

definition assess_responses_of ::
  "AgentData option \<Rightarrow> Ship list \<Rightarrow> Contract list \<Rightarrow> AssessResponses" where
  "assess_responses_of a fleet contracts =
     \<lparr>agent_response = Inr a, ships_response = Inr fleet, contracts_response = Inr contracts\<rparr>"

definition aware_contract :: Contract where
  "aware_contract =
     contract_of (Aware 172800000000) (Some (Aware 86400000000)) True False 1000 4000 [(50, 0)]"

section \<open>Properties of the contract model\<close>

lemma is_expired_naive:
  "naive_instants c \<Longrightarrow> is_expired now c = Inr (expired_at now c)"
  by (cases "deadline (terms c)"; cases "expiration c")
     (auto simp: naive_instants_def is_expired_def terms_is_expired_def expired_at_def
        expiry_instant_def elim: is_naive.elims split: option.splits)

lemma dt_sub_naive:
  "is_naive d \<Longrightarrow> dt_sub_seconds d (Naive now) = Inr (real_of_int (instant d - now) / 1000000)"
  by (cases d) auto

lemma score_naive:
  "naive_instants c \<Longrightarrow>
   calculate_profitability_score now c cap cost =
     Inr (if expired_at now c then - 1000
          else if cap < total_remaining_units c then - 500
          else if total_payment (terms c) - cost \<le> 0 then - 100
          else score_formula (total_payment (terms c) - cost) (total_remaining_units c)
                 (total_payment (terms c)) (seconds_to_deadline now c))"
  by (simp add: calculate_profitability_score_def is_expired_naive Let_def dt_sub_naive
      naive_instants_def total_remaining_units_def seconds_to_deadline_def score_formula_def)

lemma scenario_b_score:
  assumes "scenario_b now c"
  shows "calculate_profitability_score now c 100 2000 = Inr 3600"
proof -
  from assms obtain d where ds: "deliveries (terms c) = [d]" and
    d: "units_required d = 50" "units_fulfilled d = 0"
    by (auto simp: scenario_b_def)
  from assms have "is_expired now c = Inr False"
    "deadline (terms c) = Naive (now + 2 * 86400 * 1000000)"
    "total_payment (terms c) = 5000"
    by (auto simp: scenario_b_def total_payment_def)
  then show ?thesis
    by (simp add: calculate_profitability_score_def ds d remaining_units_def Let_def)
qed

lemma score_formula_mono:
  assumes "0 < p1" "p1 \<le> p2" "0 \<le> secs"
  shows "score_formula p1 u t secs \<le> score_formula p2 u t secs"
proof -
  define U where "U = real_of_int (max 1 u)"
  define T where "T = real_of_int (max 1 t)"
  define F where "F = min 1 (secs / 86400)"
  have U: "0 < U" and T: "0 < T" and F: "0 \<le> F"
    using assms(3) by (simp_all add: U_def T_def F_def)
  have p: "0 < real_of_int p1" "real_of_int p1 \<le> real_of_int p2"
    using assms by simp_all
  have a: "real_of_int p1 / U \<le> real_of_int p2 / U"
    using p U by (simp add: divide_right_mono)
  have b: "real_of_int p1 / T \<le> real_of_int p2 / T"
    using p T by (simp add: divide_right_mono)
  have a0: "0 \<le> real_of_int p1 / U" using p U by simp
  have b0: "0 \<le> real_of_int p1 / T" using p T by simp
  have "0 \<le> real_of_int p2 / U" using a a0 by linarith
  with a b b0 have "real_of_int p1 / U * (real_of_int p1 / T)
      \<le> real_of_int p2 / U * (real_of_int p2 / T)"
    by (intro mult_mono)
  then have "real_of_int p1 / U * (real_of_int p1 / T) * F
      \<le> real_of_int p2 / U * (real_of_int p2 / T) * F"
    using F by (rule mult_right_mono)
  then have "real_of_int p1 / U * (real_of_int p1 / T) * F * 100
      \<le> real_of_int p2 / U * (real_of_int p2 / T) * F * 100"
    by (rule mult_right_mono) simp
  then show ?thesis
    by (simp only: score_formula_def U_def T_def F_def)
qed

lemma score_formula_nonneg:
  assumes "0 < p" "0 \<le> secs"
  shows "0 \<le> score_formula p u t secs"
  using assms by (simp add: score_formula_def)

subsection \<open>Derived status\<close>

text \<open>
  Claim C9, as amended. The status of a contract is \<open>FULFILLED\<close> if the fulfilled flag is
  set, else \<open>ACCEPTED\<close> if the accepted flag is set, else \<open>FAILED\<close> if the contract is
  expired, that is past its expiration instant when one is set and past the deadline of
  its terms only when none is set, else \<open>AVAILABLE\<close>. The last two cases are stated for an
  instant that can be compared with the naive clock; the first two need no comparison.
  The status is a function of the record: \<open>Contract\<close> has no status field.
\<close>

theorem status_derived:
  "(fulfilled c \<longrightarrow> status now c = Inr FULFILLED) \<and>
   (\<not> fulfilled c \<and> accepted c \<longrightarrow> status now c = Inr ACCEPTED) \<and>
   (\<not> fulfilled c \<and> \<not> accepted c \<and> is_naive (expiry_instant c) \<longrightarrow>
      status now c = Inr (if expired_at now c then FAILED else AVAILABLE))"
  by (cases "deadline (terms c)"; cases "expiration c")
     (auto simp: status_def is_expired_def terms_is_expired_def expired_at_def
        expiry_instant_def elim: is_naive.elims split: option.splits)

text \<open>
  The three cases at concrete contracts: a fulfilled one, an accepted one, and one that is
  neither and whose deadline (no expiration set) passed 50 microseconds ago.
\<close>

theorem status_derived_witness:
  "fulfilled (contract_of (Naive 100) None True True 0 0 []) \<and>
   status 50 (contract_of (Naive 100) None True True 0 0 []) = Inr FULFILLED \<and>
   accepted (contract_of (Naive 100) None True False 0 0 []) \<and>
   status 50 (contract_of (Naive 100) None True False 0 0 []) = Inr ACCEPTED \<and>
   is_naive (expiry_instant (contract_of (Naive 0) None False False 0 0 [])) \<and>
   expired_at 50 (contract_of (Naive 0) None False False 0 0 []) \<and>
   status 50 (contract_of (Naive 0) None False False 0 0 []) = Inr FAILED"
  using status_derived [of "contract_of (Naive 100) None True True 0 0 []" 50]
        status_derived [of "contract_of (Naive 100) None True False 0 0 []" 50]
        status_derived [of "contract_of (Naive 0) None False False 0 0 []" 50]
  by (simp add: contract_of_def expiry_instant_def expired_at_def)

text \<open>
  Claim C9 as written fails: a contract that is neither fulfilled nor accepted, whose
  deadline is 50 microseconds ahead but whose expiration instant passed 50 microseconds
  ago, is \<open>FAILED\<close>, not \<open>AVAILABLE\<close>.
\<close>

theorem status_deadline_counterexample:
  "\<not> fulfilled (contract_of (Naive 100) (Some (Naive 0)) False False 0 0 []) \<and>
   \<not> accepted (contract_of (Naive 100) (Some (Naive 0)) False False 0 0 []) \<and>
   \<not> past_deadline 50 (contract_of (Naive 100) (Some (Naive 0)) False False 0 0 []) \<and>
   status 50 (contract_of (Naive 100) (Some (Naive 0)) False False 0 0 []) = Inr FAILED"
  by (simp add: contract_of_def status_def is_expired_def past_deadline_def)

subsection \<open>Profitability score\<close>

text \<open>
  Claim C2, as amended. For every contract whose instants can be compared with the naive
  clock, every cargo capacity and every estimated cost, the score is -1000 if the
  contract is expired; else -500 if the units still to deliver, the sum over the
  deliveries of max(0, units required - units fulfilled), exceed the cargo capacity; else
  -100 if total payment minus estimated cost is at most 0; else
  (profit / max(1, units still to deliver)) * (profit / max(1, total payment)) *
  min(1, seconds to deadline / 86400) * 100, the floats read as reals. In particular a
  contract of scenario B scores exactly 3600 with cargo capacity 100 and estimated cost
  2000.
\<close>

theorem profitability_score_value:
  "(naive_instants c \<longrightarrow>
      calculate_profitability_score now c cap cost =
        Inr (if expired_at now c then - 1000
             else if cap < total_remaining_units c then - 500
             else if total_payment (terms c) - cost \<le> 0 then - 100
             else score_formula (total_payment (terms c) - cost) (total_remaining_units c)
                    (total_payment (terms c)) (seconds_to_deadline now c))) \<and>
   (scenario_b now c \<longrightarrow> calculate_profitability_score now c 100 2000 = Inr 3600)"
  using score_naive [of c now cap cost] scenario_b_score [of now c] by blast

text \<open>
  Scenario B at the clock reading 0, with no expiration instant: both hypotheses hold and
  the general formula gives the same 3600.
\<close>

theorem profitability_score_value_witness:
  "naive_instants (contract_of (Naive 172800000000) None False False 1000 4000 [(50, 0)]) \<and>
   scenario_b 0 (contract_of (Naive 172800000000) None False False 1000 4000 [(50, 0)]) \<and>
   calculate_profitability_score 0
     (contract_of (Naive 172800000000) None False False 1000 4000 [(50, 0)]) 100 2000 = Inr 3600 \<and>
   score_formula 3000 50 5000 172800 = 3600"
proof -
  let ?c = "contract_of (Naive 172800000000) None False False 1000 4000 [(50, 0)]"
  have n: "naive_instants ?c"
    by (simp add: contract_of_def naive_instants_def)
  have b: "scenario_b 0 ?c"
    by (simp add: contract_of_def scenario_b_def is_expired_def terms_is_expired_def)
  have "calculate_profitability_score 0 ?c 100 2000 = Inr 3600"
    using profitability_score_value [of ?c 0 100 2000] b by blast
  moreover have "score_formula 3000 50 5000 172800 = 3600"
    by (simp add: score_formula_def)
  ultimately show ?thesis using n b by blast
qed

text \<open>
  Claim C2 as written fails: the capacity test counts the units still to deliver, not the
  units required. A contract that is not expired, pays 5000 and requires 50 units of which
  30 are fulfilled scores 9000 with cargo capacity 30 and estimated cost 2000, not -500,
  although the 50 units required exceed the capacity.
\<close>

theorem profitability_score_required_units_counterexample:
  "is_expired 0 (contract_of (Naive 172800000000) None False False 1000 4000 [(50, 30)])
     = Inr False \<and>
   30 < total_units_required
          (contract_of (Naive 172800000000) None False False 1000 4000 [(50, 30)]) \<and>
   calculate_profitability_score 0
     (contract_of (Naive 172800000000) None False False 1000 4000 [(50, 30)]) 30 2000 = Inr 9000"
  by (simp add: calculate_profitability_score_def contract_of_def is_expired_def
        terms_is_expired_def total_payment_def remaining_units_def total_units_required_def
        Let_def)

text \<open>
  Claim C7, as amended. For a contract whose instants can be compared with the naive
  clock, with the cargo capacity, the contract (hence the units needed, the total payment
  and the time to the deadline) and the clock fixed: the score is non-decreasing in the
  profit, total payment minus estimated cost, whenever the contract is expired, or its
  units still to deliver exceed the capacity, or the deadline of its terms has not
  passed; and the score is strictly negative for every expired contract and for every
  contract that is not expired and whose units still to deliver exceed the capacity.
\<close>

theorem profitability_score_monotone:
  assumes "naive_instants c"
  shows "(total_payment (terms c) - cost1 \<le> total_payment (terms c) - cost2 \<and>
          (expired_at now c \<or> cap < total_remaining_units c \<or> 0 \<le> seconds_to_deadline now c) \<longrightarrow>
          (\<exists>s1 s2. calculate_profitability_score now c cap cost1 = Inr s1 \<and>
                   calculate_profitability_score now c cap cost2 = Inr s2 \<and> s1 \<le> s2)) \<and>
         (expired_at now c \<or> cap < total_remaining_units c \<longrightarrow>
          (\<exists>s. calculate_profitability_score now c cap cost = Inr s \<and> s < 0))"
proof (intro conjI impI)
  assume h: "total_payment (terms c) - cost1 \<le> total_payment (terms c) - cost2 \<and>
          (expired_at now c \<or> cap < total_remaining_units c \<or> 0 \<le> seconds_to_deadline now c)"
  let ?p1 = "total_payment (terms c) - cost1" and ?p2 = "total_payment (terms c) - cost2"
  let ?f = "\<lambda>p. score_formula p (total_remaining_units c) (total_payment (terms c))
                   (seconds_to_deadline now c)"
  show "\<exists>s1 s2. calculate_profitability_score now c cap cost1 = Inr s1 \<and>
                   calculate_profitability_score now c cap cost2 = Inr s2 \<and> s1 \<le> s2"
  proof (cases "expired_at now c \<or> cap < total_remaining_units c")
    case True
    then show ?thesis by (auto simp: score_naive [OF assms])
  next
    case False
    with h have secs: "0 \<le> seconds_to_deadline now c" and le: "?p1 \<le> ?p2" by auto
    show ?thesis
    proof (cases "?p1 \<le> 0")
      case p1: True
      show ?thesis
      proof (cases "?p2 \<le> 0")
        case True
        with p1 False show ?thesis by (simp add: score_naive [OF assms])
      next
        case p2: False
        then have "0 \<le> ?f ?p2" using secs by (intro score_formula_nonneg) simp_all
        then have "- 100 \<le> ?f ?p2" by linarith
        with p1 p2 False show ?thesis by (simp add: score_naive [OF assms])
      qed
    next
      case p1: False
      then have "?f ?p1 \<le> ?f ?p2" using le secs by (intro score_formula_mono) simp_all
      moreover have "\<not> ?p2 \<le> 0" using p1 le by linarith
      ultimately show ?thesis using p1 False by (simp add: score_naive [OF assms])
    qed
  qed
next
  assume "expired_at now c \<or> cap < total_remaining_units c"
  then show "\<exists>s. calculate_profitability_score now c cap cost = Inr s \<and> s < 0"
    by (auto simp: score_naive [OF assms])
qed

text \<open>
  Scenario B again, at the clock reading 0: the deadline is ahead, so the score with
  estimated cost 4000 (profit 1000) is at most the score with estimated cost 2000 (profit
  3000); and with cargo capacity 40 the 50 units do not fit and the score is negative.
\<close>

theorem profitability_score_monotone_witness:
  "naive_instants (contract_of (Naive 172800000000) None False False 1000 4000 [(50, 0)]) \<and>
   0 \<le> seconds_to_deadline 0
          (contract_of (Naive 172800000000) None False False 1000 4000 [(50, 0)]) \<and>
   (\<exists>s1 s2. calculate_profitability_score 0
              (contract_of (Naive 172800000000) None False False 1000 4000 [(50, 0)])
              100 4000 = Inr s1 \<and>
            calculate_profitability_score 0
              (contract_of (Naive 172800000000) None False False 1000 4000 [(50, 0)])
              100 2000 = Inr s2 \<and> s1 \<le> s2) \<and>
   40 < total_remaining_units
          (contract_of (Naive 172800000000) None False False 1000 4000 [(50, 0)]) \<and>
   (\<exists>s. calculate_profitability_score 0
          (contract_of (Naive 172800000000) None False False 1000 4000 [(50, 0)])
          40 2000 = Inr s \<and> s < 0)"
proof -
  let ?c = "contract_of (Naive 172800000000) None False False 1000 4000 [(50, 0)]"
  have n: "naive_instants ?c"
    by (simp add: contract_of_def naive_instants_def)
  have secs: "0 \<le> seconds_to_deadline 0 ?c"
    by (simp add: contract_of_def seconds_to_deadline_def)
  have le: "total_payment (terms ?c) - 4000 \<le> total_payment (terms ?c) - 2000"
    by simp
  have big: "40 < total_remaining_units ?c"
    by (simp add: contract_of_def total_remaining_units_def remaining_units_def)
  have "\<exists>s1 s2. calculate_profitability_score 0 ?c 100 4000 = Inr s1 \<and>
          calculate_profitability_score 0 ?c 100 2000 = Inr s2 \<and> s1 \<le> s2"
    using profitability_score_monotone [OF n, of 4000 2000 0 100 2000] le secs by blast
  moreover have "\<exists>s. calculate_profitability_score 0 ?c 40 2000 = Inr s \<and> s < 0"
    using profitability_score_monotone [OF n, of 2000 2000 0 40 2000] big by blast
  ultimately show ?thesis using n secs big by blast
qed

text \<open>
  Claim C7 as written fails: a contract whose deadline passed a day ago but whose
  expiration instant is still ahead is not expired, and its score is a negative multiple
  of the square of the profit. With 5000 paid for 50 units and cargo capacity 100, the
  profit 1000 scores -400 and the larger profit 2000 scores -1600.
\<close>

theorem profitability_score_monotone_counterexample:
  "is_expired 0 (contract_of (Naive (- 86400000000)) (Some (Naive 1)) False False 1000 4000 [(50, 0)])
     = Inr False \<and>
   calculate_profitability_score 0
     (contract_of (Naive (- 86400000000)) (Some (Naive 1)) False False 1000 4000 [(50, 0)])
     100 4000 = Inr (- 400) \<and>
   calculate_profitability_score 0
     (contract_of (Naive (- 86400000000)) (Some (Naive 1)) False False 1000 4000 [(50, 0)])
     100 3000 = Inr (- 1600)"
  by (simp add: calculate_profitability_score_def contract_of_def is_expired_def
        total_payment_def remaining_units_def Let_def)

section \<open>Properties of the resource acquirer\<close>

lemma need_resources_always:
  "need_resources (analyze_resource_needs ctx) \<and>
   need_cargo_capacity (analyze_resource_needs ctx)"
  by (simp add: analyze_resource_needs_def Let_def)

lemma records_failure_mark: "records_failure now_ts ctx (mark_acquire_failed now_ts ctx)"
  by (simp add: records_failure_def mark_acquire_failed_def)

text \<open>
  Claim C10. For every context the resource-needs analysis reports \<open>need_resources\<close> and
  \<open>need_cargo_capacity\<close>, because the current capacity is strictly below the target
  max(60, current capacity + 20); so no run of the acquire-resources state leaves by its
  early "no additional resources needed" return, whatever the shipyards and the remote
  calls answer.
\<close>

theorem resource_needs_always:
  "need_resources (analyze_resource_needs ctx) \<and>
   need_cargo_capacity (analyze_resource_needs ctx) \<and>
   current_capacity (analyze_resource_needs ctx) = get_total_cargo_capacity ctx \<and>
   target_capacity (analyze_resource_needs ctx) = max 60 (get_total_cargo_capacity ctx + 20) \<and>
   current_capacity (analyze_resource_needs ctx) < target_capacity (analyze_resource_needs ctx) \<and>
   exit_taken (acquire_execute now_ts found api ctx) \<noteq> NoResourcesNeeded"
proof -
  have n: "need_resources (analyze_resource_needs ctx)"
    using need_resources_always by blast
  have "exit_taken (acquire_execute now_ts found api ctx) \<noteq> NoResourcesNeeded"
    by (simp add: acquire_execute_def n Let_def split: prod.splits)
  moreover have "need_cargo_capacity (analyze_resource_needs ctx)"
    using need_resources_always by blast
  moreover have "current_capacity (analyze_resource_needs ctx) = get_total_cargo_capacity ctx"
    "target_capacity (analyze_resource_needs ctx) = max 60 (get_total_cargo_capacity ctx + 20)"
    by (simp_all add: analyze_resource_needs_def Let_def)
  ultimately show ?thesis using n by simp
qed

text \<open>
  Claim C8. If shipyard discovery returns no shipyard, the acquire-resources state sets
  the failure flag and stamps the attempt with the clock in the strategy configuration,
  changes nothing else of the context, sleeps 60 seconds and returns
  \<open>NEGOTIATE_CONTRACT\<close>; if it returns shipyards none of which lists a ship, the state
  records the same markers, sleeps 300 seconds and returns \<open>NEGOTIATE_CONTRACT\<close>.
\<close>

theorem shipyard_failure_paths:
  "(found = [] \<longrightarrow>
      next_state (acquire_execute now_ts found api ctx) = NEGOTIATE_CONTRACT \<and>
      slept (acquire_execute now_ts found api ctx) = 60 \<and>
      records_failure now_ts ctx (context_after (acquire_execute now_ts found api ctx))) \<and>
   (found \<noteq> [] \<and> (\<forall>sy \<in> set found. shipyard_ships sy = []) \<longrightarrow>
      next_state (acquire_execute now_ts found api ctx) = NEGOTIATE_CONTRACT \<and>
      slept (acquire_execute now_ts found api ctx) = 300 \<and>
      records_failure now_ts ctx (context_after (acquire_execute now_ts found api ctx)))"
proof -
  have n: "need_resources (analyze_resource_needs ctx)"
    using need_resources_always by blast
  have e: "(\<forall>sy \<in> set found. shipyard_ships sy = []) \<Longrightarrow>
           filter (\<lambda>sy. 0 < length (shipyard_ships sy)) found = []"
    by (induction found) auto
  show ?thesis
    using n e by (auto simp: acquire_execute_def Let_def records_failure_mark)
qed

text \<open>
  Both paths from \<open>home_context\<close> at the clock reading 1000: no shipyard at all, and one
  shipyard with an empty list of ships.
\<close>

theorem shipyard_failure_paths_witness:
  "next_state (acquire_execute 1000 [] (responses_of (Inl ApiError)) home_context)
     = NEGOTIATE_CONTRACT \<and>
   slept (acquire_execute 1000 [] (responses_of (Inl ApiError)) home_context) = 60 \<and>
   records_failure 1000 home_context
     (context_after (acquire_execute 1000 [] (responses_of (Inl ApiError)) home_context)) \<and>
   [yard_of ''X1-DF55-A1'' []] \<noteq> [] \<and>
   shipyard_ships (yard_of ''X1-DF55-A1'' []) = [] \<and>
   next_state (acquire_execute 1000 [yard_of ''X1-DF55-A1'' []] (responses_of (Inl ApiError))
                 home_context) = NEGOTIATE_CONTRACT \<and>
   slept (acquire_execute 1000 [yard_of ''X1-DF55-A1'' []] (responses_of (Inl ApiError))
            home_context) = 300 \<and>
   records_failure 1000 home_context
     (context_after (acquire_execute 1000 [yard_of ''X1-DF55-A1'' []]
                       (responses_of (Inl ApiError)) home_context))"
proof -
  have y: "shipyard_ships (yard_of ''X1-DF55-A1'' []) = []"
    by (simp add: yard_of_def)
  show ?thesis
    using shipyard_failure_paths [of "[]" 1000 "responses_of (Inl ApiError)" home_context]
          shipyard_failure_paths [of "[yard_of ''X1-DF55-A1'' []]" 1000
                                     "responses_of (Inl ApiError)" home_context]
          y
    by simp
qed

subsection \<open>Purchase execution\<close>

text \<open>
  When the purchase call raises, the handler of \<open>_execute_ship_purchase\<close> reports a failed
  purchase and the context is as it was. The two clients under the sources define no
  \<open>purchase_ship\<close>, so with either of them the call raises; the responses below are those
  of a collaborator that offers the call.
\<close>

lemma purchase_call_raises:
  "purchase_ship api = Inl e \<Longrightarrow>
   execute_ship_purchase api ctx ship_info shipyard = (False, ctx)"
  by (auto simp: execute_ship_purchase_def make_purchase_def Let_def split: option.splits)

text \<open>
  What the code does with a response: one that is empty or has no \<open>data\<close> member is
  reported as a failed purchase and leaves the context as it was. One that has a \<open>data\<close>
  member without a \<open>ship\<close> payload leaves the fleet list unchanged; but when the purchase
  call is reached (a ship of the fleet is at the shipyard waypoint) from a context that
  has an agent snapshot, it is reported as a successful purchase, and the snapshot is
  replaced by the \<open>agent\<close> payload when the response carries one.
\<close>

lemma purchase_response_handling:
  "(purchase_ship api = Inr NoData \<longrightarrow>
      execute_ship_purchase api ctx ship_info shipyard = (False, ctx)) \<and>
   (purchase_ship api = Inr (Data None agent_payload) \<longrightarrow>
      ships (snd (execute_ship_purchase api ctx ship_info shipyard)) = ships ctx \<and>
      (get_ship_at_waypoint ctx (shipyard_waypoint shipyard) \<noteq> None \<and> agent_data ctx \<noteq> None \<longrightarrow>
         fst (execute_ship_purchase api ctx ship_info shipyard) = True \<and>
         agent_data (snd (execute_ship_purchase api ctx ship_info shipyard)) =
           (case agent_payload of None \<Rightarrow> agent_data ctx | Some a \<Rightarrow> Some a)))"
  by (auto simp: execute_ship_purchase_def make_purchase_def update_agent_data_def Let_def
      split: option.splits)

text \<open>
  Claim C1 does not hold of the code. From \<open>home_context\<close>, whose ship is docked at the
  shipyard, a response with a \<open>data\<close> member that carries an agent payload of 40000
  credits and no ship payload: the fleet is unchanged, but the purchase is reported as
  successful and the credits of the agent go from 100000 to 40000.
\<close>

theorem purchase_without_ship_reported_successful:
  "fst (execute_ship_purchase (responses_of (Inr (Data None (Some (agent_of 40000)))))
          home_context (offer_of ''SHIP_LIGHT_HAULER'' (Some 50000) (Some 80))
          (yard_of ''X1-DF55-A1'' [offer_of ''SHIP_LIGHT_HAULER'' (Some 50000) (Some 80)])) = True \<and>
   ships (snd (execute_ship_purchase (responses_of (Inr (Data None (Some (agent_of 40000)))))
                 home_context (offer_of ''SHIP_LIGHT_HAULER'' (Some 50000) (Some 80))
                 (yard_of ''X1-DF55-A1'' [offer_of ''SHIP_LIGHT_HAULER'' (Some 50000) (Some 80)])))
     = ships home_context \<and>
   map_option credits (agent_data home_context) = Some 100000 \<and>
   map_option credits
     (agent_data (snd (execute_ship_purchase (responses_of (Inr (Data None (Some (agent_of 40000)))))
                         home_context (offer_of ''SHIP_LIGHT_HAULER'' (Some 50000) (Some 80))
                         (yard_of ''X1-DF55-A1'' [offer_of ''SHIP_LIGHT_HAULER'' (Some 50000) (Some 80)]))))
     = Some 40000"
  by (simp add: execute_ship_purchase_def make_purchase_def update_agent_data_def
        get_ship_at_waypoint_def home_context_def context_of_def ship_of_def yard_of_def
        responses_of_def agent_of_def Let_def)

subsection \<open>Ship selection\<close>

lemma consider_pair_simp [simp]:
  "consider_pair p m (ship_info, sy) = consider_offer p m sy ship_info"
  by (rule ext) (simp add: consider_pair_def)

lemma scan_as_fold:
  "fold (scan_shipyard p m) shipyards best =
   fold (consider_pair p m) (all_offers shipyards) best"
proof (induction shipyards arbitrary: best)
  case Nil
  then show ?case by (simp add: all_offers_def)
next
  case (Cons sy rest)
  have "fold (consider_pair p m)
          (map (\<lambda>ship_info. (ship_info, sy)) (shipyard_ships sy)) best
        = scan_shipyard p m sy best"
    by (simp add: scan_shipyard_def fold_map comp_def)
  with Cons show ?case by (simp add: all_offers_def)
qed

lemma consider_offer_cases:
  "consider_offer p m sy off best =
     (if qualifies p m off \<and> snd best < offer_value off
      then (Some (off, sy), offer_value off) else best)"
  by (auto simp: consider_offer_def qualifies_def)

lemma qualifies_value_pos: "qualifies p m off \<Longrightarrow> 0 < offer_value off"
  by (simp add: qualifies_def offer_value_def)

lemma first_bestI:
  assumes "qualifies p m (fst chosen)" "offers = before @ chosen # after"
    "\<forall>x \<in> set before. qualifies p m (fst x) \<longrightarrow> offer_value (fst x) < offer_value (fst chosen)"
    "\<forall>x \<in> set after. qualifies p m (fst x) \<longrightarrow> offer_value (fst x) \<le> offer_value (fst chosen)"
  shows "first_best p m offers chosen"
  unfolding first_best_def using assms by blast

text \<open>
  The invariant of the selection loop, by induction on the offers met so far: the
  accumulator is empty with value 0 while no offer qualified, and afterwards holds the
  first offer of greatest value among those met.
\<close>

lemma fold_select:
  "(case fold (consider_pair p m) offers (None, 0) of
      (None, v) \<Rightarrow> v = 0 \<and> (\<forall>x \<in> set offers. \<not> qualifies p m (fst x))
    | (Some chosen, v) \<Rightarrow> v = offer_value (fst chosen) \<and> first_best p m offers chosen)"
proof (induction offers rule: rev_induct)
  case Nil
  then show ?case by simp
next
  case (snoc x xs)
  obtain off sy where x: "x = (off, sy)" by (cases x)
  obtain b v where r: "fold (consider_pair p m) xs (None, 0) = (b, v)"
    by (cases "fold (consider_pair p m) xs (None, 0)")
  have st: "fold (consider_pair p m) (xs @ [x]) (None, 0) =
      (if qualifies p m off \<and> v < offer_value off
       then (Some (off, sy), offer_value off) else (b, v))"
    by (simp add: r x consider_offer_cases)
  let ?goal = "case (if qualifies p m off \<and> v < offer_value off
                     then (Some (off, sy), offer_value off) else (b, v)) of
            (None, v) \<Rightarrow> v = 0 \<and> (\<forall>y \<in> set (xs @ [x]). \<not> qualifies p m (fst y))
          | (Some chosen, v) \<Rightarrow>
              v = offer_value (fst chosen) \<and> first_best p m (xs @ [x]) chosen"
  have ?goal
  proof (cases b)
    case None
    with snoc r have v: "v = 0" and nq: "\<forall>y \<in> set xs. \<not> qualifies p m (fst y)" by auto
    show ?thesis
    proof (cases "qualifies p m off")
      case True
      then have "v < offer_value off" using v qualifies_value_pos by simp
      moreover have "first_best p m (xs @ [x]) (off, sy)"
        using True nq x by (intro first_bestI [where before = xs and after = "[]"]) auto
      ultimately show ?thesis using True by simp
    next
      case False
      then show ?thesis using None v nq x by simp
    qed
  next
    case (Some chosen)
    with snoc r have v: "v = offer_value (fst chosen)" and fb: "first_best p m xs chosen"
      by auto
    from fb obtain before after where
      q: "qualifies p m (fst chosen)" and xs: "xs = before @ chosen # after" and
      bf: "\<forall>y \<in> set before. qualifies p m (fst y) \<longrightarrow>
             offer_value (fst y) < offer_value (fst chosen)" and
      af: "\<forall>y \<in> set after. qualifies p m (fst y) \<longrightarrow>
             offer_value (fst y) \<le> offer_value (fst chosen)"
      unfolding first_best_def by blast
    show ?thesis
    proof (cases "qualifies p m off \<and> v < offer_value off")
      case True
      have "first_best p m (xs @ [x]) (off, sy)"
      proof (rule first_bestI [where before = xs and after = "[]"])
        show "\<forall>y\<in>set xs. qualifies p m (fst y) \<longrightarrow>
                offer_value (fst y) < offer_value (fst (off, sy))"
          using True v bf af q xs by fastforce
      qed (use True x in auto)
      then show ?thesis using True by simp
    next
      case False
      have "first_best p m (xs @ [x]) chosen"
      proof (rule first_bestI [where before = before and after = "after @ [x]"])
        show "\<forall>y\<in>set (after @ [x]). qualifies p m (fst y) \<longrightarrow>
                offer_value (fst y) \<le> offer_value (fst chosen)"
          using False v af x by auto
      qed (use q xs bf in auto)
      then show ?thesis using False Some v by auto
    qed
  qed
  then show ?case unfolding st .
qed

lemma select_ship_spec:
  "(case select_ship p m shipyards of
      None \<Rightarrow> \<forall>x \<in> set (all_offers shipyards). \<not> qualifies p m (fst x)
    | Some chosen \<Rightarrow> first_best p m (all_offers shipyards) chosen)"
  using fold_select [where offers = "all_offers shipyards" and p = p and m = m]
  by (auto simp: select_ship_def scan_as_fold split: prod.splits option.splits)

lemma select_ship_none:
  assumes "\<forall>x \<in> set (all_offers shipyards). \<not> qualifies p m (fst x)"
  shows "select_ship p m shipyards = None"
proof (cases "select_ship p m shipyards")
  case None
  then show ?thesis .
next
  case (Some chosen)
  with select_ship_spec [where p = p and m = m and shipyards = shipyards] have "first_best p m (all_offers shipyards) chosen"
    by simp
  then have "qualifies p m (fst chosen)" "chosen \<in> set (all_offers shipyards)"
    by (auto simp: first_best_def)
  with assms show ?thesis by blast
qed

text \<open>
  Claim C6, as amended. Among all offers of all discovered shipyards, in the order the
  loops meet them, ship-purchase selection picks an offer that maximises
  cargo capacity / max(price, 1), the floats read as reals, among those whose price does not
  exceed credits minus safety reserve, whose cargo capacity is positive and whose
  capacity is at least the minimum needed; it is the first offer met with that value.
  For a price of at least 1 that value is cargo capacity / price. When no offer
  qualifies nothing is selected and the purchase attempt is reported as failed, the
  context unchanged; when an offer is selected the attempt is the execution of its
  purchase. A missing price counts as 0 and a missing capacity as 0.
\<close>

theorem ship_selection:
  "(case select_ship p m shipyards of
      None \<Rightarrow> \<forall>x \<in> set (all_offers shipyards). \<not> qualifies p m (fst x)
    | Some chosen \<Rightarrow> first_best p m (all_offers shipyards) chosen) \<and>
   (1 \<le> offer_price ship_info \<longrightarrow>
      offer_value ship_info
        = real_of_int (offer_cargo ship_info) / real_of_int (offer_price ship_info)) \<and>
   (agent_data ctx = Some a \<and>
    (\<forall>x \<in> set (all_offers shipyards).
        \<not> qualifies (credits a - safety_reserve ctx) m (fst x)) \<longrightarrow>
      purchase_cargo_ship api ctx shipyards m = (False, ctx)) \<and>
   (agent_data ctx = Some a \<and>
    select_ship (credits a - safety_reserve ctx) m shipyards = Some (best_ship, best_shipyard) \<longrightarrow>
      purchase_cargo_ship api ctx shipyards m
        = execute_ship_purchase api ctx best_ship best_shipyard)"
proof (intro conjI impI)
  show "case select_ship p m shipyards of
      None \<Rightarrow> \<forall>x \<in> set (all_offers shipyards). \<not> qualifies p m (fst x)
    | Some chosen \<Rightarrow> first_best p m (all_offers shipyards) chosen"
    by (rule select_ship_spec)
next
  assume "1 \<le> offer_price ship_info"
  then show "offer_value ship_info
        = real_of_int (offer_cargo ship_info) / real_of_int (offer_price ship_info)"
    by (simp add: offer_value_def max_def)
next
  assume h: "agent_data ctx = Some a \<and>
    (\<forall>x \<in> set (all_offers shipyards).
        \<not> qualifies (credits a - safety_reserve ctx) m (fst x))"
  then have "select_ship (credits a - safety_reserve ctx) m shipyards = None"
    by (intro select_ship_none) blast
  with h show "purchase_cargo_ship api ctx shipyards m = (False, ctx)"
    by (simp add: purchase_cargo_ship_def safety_reserve_def Let_def)
next
  assume "agent_data ctx = Some a \<and>
    select_ship (credits a - safety_reserve ctx) m shipyards = Some (best_ship, best_shipyard)"
  then show "purchase_cargo_ship api ctx shipyards m
        = execute_ship_purchase api ctx best_ship best_shipyard"
    by (simp add: purchase_cargo_ship_def safety_reserve_def Let_def)
qed

text \<open>
  With 90000 credits to spend and 20 units needed, over \<open>yard_a\<close> and \<open>yard_b\<close>: the
  hauler of \<open>yard_a\<close> is selected, ahead of the shuttle and the hauler of \<open>yard_b\<close> that
  have the same value; from \<open>home_context\<close> the attempt is the execution of that
  purchase; and over a shipyard that only sells the freighter the attempt fails.
\<close>

theorem ship_selection_witness:
  "select_ship 90000 20 [yard_a, yard_b] = Some (hauler, yard_a) \<and>
   first_best 90000 20 (all_offers [yard_a, yard_b]) (hauler, yard_a) \<and>
   1 \<le> offer_price hauler \<and> offer_value hauler = 80 / 50000 \<and>
   offer_value shuttle = offer_value hauler \<and>
   agent_data home_context = Some (agent_of 100000) \<and>
   credits (agent_of 100000) - safety_reserve home_context = 90000 \<and>
   purchase_cargo_ship (responses_of (Inl ApiError)) home_context [yard_a, yard_b] 20
     = execute_ship_purchase (responses_of (Inl ApiError)) home_context hauler yard_a \<and>
   purchase_cargo_ship (responses_of (Inl ApiError)) home_context
       [yard_of ''X1-DF55-C3'' [freighter]] 20
     = (False, home_context)"
proof -
  let ?api = "responses_of (Inl ApiError)"
  have sel: "select_ship 90000 20 [yard_a, yard_b] = Some (hauler, yard_a)"
    by (simp add: select_ship_def scan_shipyard_def consider_offer_def yard_a_def yard_b_def
          yard_of_def probe_def drone_def hauler_def shuttle_def freighter_def offer_of_def
          offer_price_def offer_cargo_def offer_value_def)
  have a: "agent_data home_context = Some (agent_of 100000)"
    by (simp add: home_context_def context_of_def)
  have c: "credits (agent_of 100000) - safety_reserve home_context = 90000"
    by (simp add: home_context_def context_of_def agent_of_def safety_reserve_def)
  have none: "\<forall>x \<in> set (all_offers [yard_of ''X1-DF55-C3'' [freighter]]).
                \<not> qualifies (credits (agent_of 100000) - safety_reserve home_context) 20 (fst x)"
    by (simp add: c all_offers_def yard_of_def freighter_def offer_of_def qualifies_def
          offer_price_def)
  have v: "1 \<le> offer_price hauler" "offer_value shuttle = offer_value hauler"
    by (simp_all add: hauler_def shuttle_def offer_of_def offer_price_def offer_value_def
          offer_cargo_def)
  have "first_best 90000 20 (all_offers [yard_a, yard_b]) (hauler, yard_a)"
    using ship_selection [where p = 90000 and m = 20 and shipyards = "[yard_a, yard_b]"] sel
    by simp
  moreover have "offer_value hauler = 80 / 50000"
    using ship_selection [where ship_info = hauler] v(1)
    by (simp add: hauler_def offer_of_def offer_price_def offer_cargo_def)
  moreover have "purchase_cargo_ship ?api home_context [yard_a, yard_b] 20
     = execute_ship_purchase ?api home_context hauler yard_a"
    using ship_selection [where ctx = home_context and a = "agent_of 100000" and m = 20
            and shipyards = "[yard_a, yard_b]" and best_ship = hauler
            and best_shipyard = yard_a and api = ?api] a c sel
    by simp
  moreover have "purchase_cargo_ship ?api home_context [yard_of ''X1-DF55-C3'' [freighter]] 20
     = (False, home_context)"
    using ship_selection [where ctx = home_context and a = "agent_of 100000" and m = 20
            and shipyards = "[yard_of ''X1-DF55-C3'' [freighter]]" and api = ?api] a none
    by blast
  ultimately show ?thesis using sel a c v by simp
qed

text \<open>
  Claim C6 as written fails where a price is below 1, which the code replaces by 1.
  With 1000 credits to spend and 1 unit needed: next to the cheap offer (5 units for 1
  credit) the unpriced offer (1 unit for nothing) qualifies and has the greater capacity
  per credit, compared by cross-multiplication, yet the cheap offer is selected; and the
  rebate offer (10 units at the price -1) has capacity / price = -10, below the 5 of the
  cheap offer that qualifies, yet the rebate offer is selected.
\<close>

theorem ship_selection_counterexample:
  "select_ship 1000 1 [yard_of ''X1-DF55-A1'' [unpriced, cheap]]
     = Some (cheap, yard_of ''X1-DF55-A1'' [unpriced, cheap]) \<and>
   qualifies 1000 1 unpriced \<and>
   offer_cargo cheap * offer_price unpriced < offer_cargo unpriced * offer_price cheap \<and>
   select_ship 1000 1 [yard_of ''X1-DF55-A1'' [rebate, cheap]]
     = Some (rebate, yard_of ''X1-DF55-A1'' [rebate, cheap]) \<and>
   qualifies 1000 1 cheap \<and>
   real_of_int (offer_cargo rebate) / real_of_int (offer_price rebate)
     < real_of_int (offer_cargo cheap) / real_of_int (offer_price cheap)"
  by (simp add: select_ship_def scan_shipyard_def consider_offer_def yard_of_def
        unpriced_def rebate_def cheap_def offer_of_def offer_price_def offer_cargo_def
        offer_value_def qualifies_def)

section \<open>Properties of the contract negotiator\<close>

lemma py_int_tenth:
  "py_int (real_of_int n * (1 / 10)) = (if 0 \<le> n then n div 10 else - ((- n) div 10))"
proof -
  have f: "\<lfloor>real_of_int n / 10\<rfloor> = n div 10"
    using floor_divide_of_int_eq [of n 10, where ?'a = real] by simp
  have "\<lceil>real_of_int n / 10\<rceil> = - \<lfloor>real_of_int (- n) / 10\<rfloor>"
    by (simp add: ceiling_def)
  also have "\<lfloor>real_of_int (- n) / 10\<rfloor> = (- n) div 10"
    using floor_divide_of_int_eq [of "- n" 10, where ?'a = real] by simp
  finally have c: "\<lceil>real_of_int n / 10\<rceil> = - ((- n) div 10)" .
  show ?thesis using f c by (simp add: py_int_def)
qed

lemma estimate_eq:
  "estimate_contract_cost c = total_units_required c * 100 +
     (if 0 \<le> total_payment (terms c) then total_payment (terms c) div 10
      else - ((- total_payment (terms c)) div 10))"
  by (simp only: estimate_contract_cost_def Let_def py_int_tenth total_units_required_def)

lemma capability_check_eq:
  assumes "agent_data ctx = Some a" "safety_credit_reserve (strategy_config ctx) = Some reserve"
  shows "capability_check ctx cap c =
     Inr (total_units_required c \<le> cap \<and> estimate_contract_cost c \<le> credits a - reserve)"
  using assms
  by (auto simp: capability_check_def has_sufficient_credits_def total_units_required_def Let_def)

lemma filter_loop_eq:
  assumes "agent_data ctx = Some a" "safety_credit_reserve (strategy_config ctx) = Some reserve"
  shows "filter_loop ctx cap contracts =
     Inr (filter (\<lambda>c. total_units_required c \<le> cap \<and>
                       estimate_contract_cost c \<le> credits a - reserve) contracts)"
  by (induction contracts) (simp_all add: capability_check_eq [OF assms])

text \<open>
  Claim C3, as amended. For a context with an agent snapshot and a configured safety
  reserve, every list of candidate contracts and every non-empty fleet, the capability
  filter retains, in order, exactly those contracts whose total units required across
  deliveries do not exceed the total fleet cargo capacity and whose estimated cost does
  not exceed credits minus safety reserve, where the estimated cost is the integer
  total units required * 100 plus 0.1 * total payment truncated towards zero. In
  particular a contract whose largest delivery exceeds the largest ship's capacity but
  whose total fits the total capacity is kept when its estimated cost is affordable.
\<close>

theorem capability_filter:
  assumes "ships ctx \<noteq> []" "agent_data ctx = Some a"
    "safety_credit_reserve (strategy_config ctx) = Some reserve"
  shows "filter_contracts_by_capabilities ctx contracts =
           Inr (filter (\<lambda>c. total_units_required c \<le> get_total_cargo_capacity ctx \<and>
                             estimate_contract_cost c \<le> credits a - reserve) contracts) \<and>
         estimate_contract_cost c = total_units_required c * 100 +
           (if 0 \<le> total_payment (terms c) then total_payment (terms c) div 10
            else - ((- total_payment (terms c)) div 10)) \<and>
         (c \<in> set contracts \<and>
          py_max (map cargo_capacity (ships ctx))
            < py_max (map units_required (deliveries (terms c))) \<and>
          total_units_required c \<le> get_total_cargo_capacity ctx \<and>
          estimate_contract_cost c \<le> credits a - reserve \<longrightarrow>
            (\<exists>kept. filter_contracts_by_capabilities ctx contracts = Inr kept \<and> c \<in> set kept))"
  using assms
  by (simp add: filter_contracts_by_capabilities_def filter_loop_eq [OF assms(2,3)] estimate_eq)

text \<open>
  From \<open>twin_context\<close> (total capacity 80, largest ship 40, 90000 credits to spend): the
  delivery of 60 units is larger than either ship, fits the fleet and costs 6500, so its
  contract is the one kept; the 200 units do not fit and the third contract costs 105000.
\<close>

theorem capability_filter_witness:
  "ships twin_context \<noteq> [] \<and>
   agent_data twin_context = Some (agent_of 100000) \<and>
   safety_credit_reserve (strategy_config twin_context) = Some 10000 \<and>
   py_max (map cargo_capacity (ships twin_context)) = 40 \<and>
   py_max (map units_required (deliveries (terms split_contract))) = 60 \<and>
   total_units_required split_contract = 60 \<and>
   get_total_cargo_capacity twin_context = 80 \<and>
   estimate_contract_cost split_contract = 6500 \<and>
   filter_contracts_by_capabilities twin_context
     [split_contract, oversized_contract, costly_contract] = Inr [split_contract]"
proof -
  have s: "ships twin_context \<noteq> []"
    and a: "agent_data twin_context = Some (agent_of 100000)"
    and r: "safety_credit_reserve (strategy_config twin_context) = Some 10000"
    and cap: "get_total_cargo_capacity twin_context = 80"
    and big: "py_max (map cargo_capacity (ships twin_context)) = 40"
    by (simp_all add: twin_context_def context_of_def ship_of_def
          get_total_cargo_capacity_def cargo_capacity_def)
  have u: "total_units_required split_contract = 60"
    "total_units_required oversized_contract = 200"
    "total_units_required costly_contract = 50"
    "py_max (map units_required (deliveries (terms split_contract))) = 60"
    by (simp_all add: split_contract_def oversized_contract_def costly_contract_def
          contract_of_def total_units_required_def)
  have p: "total_payment (terms split_contract) = 5000"
    "total_payment (terms oversized_contract) = 5000"
    "total_payment (terms costly_contract) = 1000000"
    by (simp_all add: split_contract_def oversized_contract_def costly_contract_def
          contract_of_def total_payment_def)
  have e: "estimate_contract_cost split_contract = 6500"
    "estimate_contract_cost costly_contract = 105000"
    using capability_filter [OF s a r, where c = split_contract]
          capability_filter [OF s a r, where c = costly_contract] u p
    by simp_all
  have "filter_contracts_by_capabilities twin_context
     [split_contract, oversized_contract, costly_contract] = Inr [split_contract]"
    using capability_filter [OF s a r,
            where contracts = "[split_contract, oversized_contract, costly_contract]"]
          cap u e
    by (simp add: agent_of_def)
  then show ?thesis using s a r cap big u e by simp
qed

text \<open>
  Claim C3 as written fails at the boundary: with 1500 credits to spend, a contract of 10
  units that pays 5005 is kept, because its estimated cost is 1000 + int(500.5) = 1500,
  although 10 * 100 + 0.1 * 5005 = 1500.5 exceeds 1500.
\<close>

theorem capability_filter_counterexample:
  "filter_contracts_by_capabilities boundary_context [boundary_contract]
     = Inr [boundary_contract] \<and>
   map_option credits (agent_data boundary_context) = Some 11500 \<and>
   safety_credit_reserve (strategy_config boundary_context) = Some 10000 \<and>
   real_of_int (11500 - 10000)
     < real_of_int (total_units_required boundary_contract) * 100
       + (1 / 10) * real_of_int (total_payment (terms boundary_contract))"
  by (simp add: filter_contracts_by_capabilities_def capability_check_def
        has_sufficient_credits_def boundary_context_def context_of_def ship_of_def
        agent_of_def boundary_contract_def contract_of_def get_total_cargo_capacity_def
        cargo_capacity_def estimate_contract_cost_def total_payment_def py_int_def
        total_units_required_def Let_def)

subsection \<open>Diagnosis of an empty filter result\<close>

lemma count_issues_eq:
  assumes "\<And>x. has_sufficient_credits ctx x = Inr (ok x)"
  shows "count_issues ctx cap contracts (i, j, k) =
     Inr (i + length (filter (\<lambda>c. cap < total_units_required c) contracts),
          j + length (filter (\<lambda>c. \<not> ok (estimate_contract_cost c)) contracts),
          k + length (filter (\<lambda>c. py_max (map cargo_capacity (ships ctx))
                                     < py_max (map units_required (deliveries (terms c)))
                                   \<and> cap < total_units_required c) contracts))"
  by (induction contracts arbitrary: i j k)
     (simp_all add: assms Let_def total_units_required_def)

text \<open>
  What \<open>_analyze_filtering_reasons\<close> decides, for a context with an agent snapshot and a
  configured reserve: fleet expansion as soon as one contract needs more units than the
  fleet carries, the credits are above 50000 and no failure of the last hour is on
  record. The count of credit issues plays no part.
\<close>

lemma analyze_filtering_reasons_rule:
  assumes "agent_data ctx = Some a" "safety_credit_reserve (strategy_config ctx) = Some reserve"
  shows "analyze_filtering_reasons ctx now_ts contracts =
     Inr (if contracts \<noteq> [] \<and>
             (\<exists>c \<in> set contracts. get_total_cargo_capacity ctx < total_units_required c) \<and>
             50000 < credits a \<and>
             (acquire_failed (strategy_config ctx) = Some True \<longrightarrow>
                3600 < now_ts - (case last_acquire_attempt (strategy_config ctx) of
                                   None \<Rightarrow> 0 | Some t \<Rightarrow> t))
          then ACQUIRE_RESOURCES else NEGOTIATE_CONTRACT)"
proof -
  have ok: "\<And>x. has_sufficient_credits ctx x = Inr (x \<le> credits a - reserve)"
    using assms by (simp add: has_sufficient_credits_def)
  show ?thesis
    unfolding analyze_filtering_reasons_def count_issues_eq [of ctx, OF ok]
    using assms(1)
    by (auto simp: filter_empty_conv Let_def split: option.splits)
qed

text \<open>
  Claim C4 does not hold of the code. From \<open>expansion_context\<close> (capacity 100, 60000
  credits, no failure on record) with one contract of 200 units and three contracts that
  cost 105000 each, no contract survives the filter; one contract has a capacity issue
  (and with it a ship-size issue) and three have a credit issue, so the credit cause
  dominates, and the analysis still answers \<open>ACQUIRE_RESOURCES\<close>.
\<close>

theorem analysis_ignores_dominance:
  "filter_contracts_by_capabilities expansion_context
      [oversized_contract, costly_contract, costly_contract, costly_contract] = Inr [] \<and>
   count_issues expansion_context (get_total_cargo_capacity expansion_context)
      [oversized_contract, costly_contract, costly_contract, costly_contract] (0, 0, 0)
      = Inr (1, 3, 1) \<and>
   analyze_filtering_reasons expansion_context 0
      [oversized_contract, costly_contract, costly_contract, costly_contract]
      = Inr ACQUIRE_RESOURCES"
  by (simp add: filter_contracts_by_capabilities_def capability_check_def
        has_sufficient_credits_def analyze_filtering_reasons_def expansion_context_def
        context_of_def ship_of_def agent_of_def oversized_contract_def costly_contract_def
        contract_of_def get_total_cargo_capacity_def cargo_capacity_def
        estimate_contract_cost_def total_payment_def py_int_def Let_def)

text \<open>So at that input the negotiator does not loop on \<open>NEGOTIATE_CONTRACT\<close>.\<close>

theorem analysis_ignores_dominance_witness:
  "analyze_filtering_reasons expansion_context 0
      [oversized_contract, costly_contract, costly_contract, costly_contract]
      \<noteq> Inr NEGOTIATE_CONTRACT"
  using analysis_ignores_dominance by simp

section \<open>Properties of the situation assessor\<close>

lemma active_naive:
  assumes "\<forall>c \<in> set contracts. naive_instants c"
  shows "active_contracts now contracts =
     Inr (filter (\<lambda>c. accepted c \<and> \<not> fulfilled c \<and> \<not> expired_at now c) contracts)"
  using assms by (induction contracts) (auto simp: is_expired_naive)

lemma available_naive:
  assumes "\<forall>c \<in> set contracts. naive_instants c"
  shows "available_contracts now contracts =
     Inr (filter (\<lambda>c. \<not> accepted c \<and> \<not> expired_at now c) contracts)"
  using assms by (induction contracts) (auto simp: is_expired_naive)

lemma first_of_filter:
  "(case filter P xs of [] \<Rightarrow> None | first # _ \<Rightarrow> Some first) = find P xs"
  by (induction xs) auto

text \<open>An empty fleet ends in \<open>ERROR_RECOVERY\<close>, whatever the other fetches give.\<close>

lemma assess_empty_fleet:
  "ships_response r = Inr [] \<Longrightarrow> fst (assess_execute now r ctx) = ERROR_RECOVERY"
  by (auto simp: assess_execute_def update_contracts_def determine_next_action_def Let_def
      split: sum.splits option.splits prod.splits list.splits)

text \<open>
  When the three fetches succeed and every instant of the fetched contracts is naive, the
  assessment follows the classification rule: the first contract that is accepted, not
  fulfilled and not expired becomes the current contract and decides between
  \<open>COMPLETE_CONTRACT\<close> and \<open>EXECUTE_CONTRACT\<close>; without one the current contract is cleared
  and the next state is \<open>NEGOTIATE_CONTRACT\<close>.
\<close>

lemma assess_classification:
  assumes "agent_response r = Inr a" "ships_response r = Inr fleet"
    "contracts_response r = Inr contracts" "\<forall>c \<in> set contracts. naive_instants c"
  shows "assess_execute now r ctx =
     (if fleet = [] then ERROR_RECOVERY
      else (case find (\<lambda>c. accepted c \<and> \<not> fulfilled c \<and> \<not> expired_at now c) contracts of
              Some c \<Rightarrow>
                if all_deliveries_completed c then COMPLETE_CONTRACT else EXECUTE_CONTRACT
            | None \<Rightarrow> NEGOTIATE_CONTRACT),
      (update_agent_data ctx a)
        \<lparr>ships := fleet,
         current_contract :=
           find (\<lambda>c. accepted c \<and> \<not> fulfilled c \<and> \<not> expired_at now c) contracts\<rparr>)"
  using assms
  by (simp add: assess_execute_def update_contracts_def determine_next_action_def Let_def
      active_naive available_naive first_of_filter)

text \<open>
  With an aware instant the expiry test raises. So an assessment ends in
  \<open>ERROR_RECOVERY\<close> as soon as one fetched contract whose expiry instant is aware is not
  both accepted and fulfilled: the first comprehension evaluates the test for a contract
  that is accepted and not fulfilled, the second for one that is not accepted.
\<close>

lemma is_expired_aware:
  "\<not> is_naive (expiry_instant c) \<Longrightarrow> is_expired now c = Inl TypeError"
  by (cases "deadline (terms c)"; cases "expiration c")
     (auto simp: is_expired_def terms_is_expired_def expiry_instant_def
        elim: is_naive.elims split: option.splits)

lemma active_raises:
  assumes "c \<in> set contracts" "accepted c" "\<not> fulfilled c" "\<not> is_naive (expiry_instant c)"
  shows "\<exists>e. active_contracts now contracts = Inl e"
  using assms
  by (induction contracts) (auto simp: is_expired_aware split: sum.splits)

lemma available_raises:
  assumes "c \<in> set contracts" "\<not> accepted c" "\<not> is_naive (expiry_instant c)"
  shows "\<exists>e. available_contracts now contracts = Inl e"
  using assms
  by (induction contracts) (auto simp: is_expired_aware split: sum.splits)

lemma assess_aware_error_recovery:
  assumes "contracts_response r = Inr contracts" "c \<in> set contracts"
    "\<not> (accepted c \<and> fulfilled c)" "\<not> is_naive (expiry_instant c)"
  shows "fst (assess_execute now r ctx) = ERROR_RECOVERY"
proof (cases "accepted c")
  case True
  with assms have "\<exists>e. active_contracts now contracts = Inl e"
    by (intro active_raises [of c]) auto
  then show ?thesis using assms(1)
    by (auto simp: assess_execute_def update_contracts_def Let_def split: sum.splits)
next
  case False
  with assms have "\<exists>e. available_contracts now contracts = Inl e"
    by (intro available_raises [of c]) auto
  then show ?thesis using assms(1)
    by (auto simp: assess_execute_def update_contracts_def Let_def split: sum.splits)
qed

text \<open>
  Claim C5 does not hold of the code. The fleet of \<open>home_context\<close> is not empty and the
  one fetched contract is accepted, not fulfilled and a day away from its expiration,
  but its instants are aware: the expiry test compares them with the naive
  \<open>datetime.now()\<close>, the \<open>TypeError\<close> ends the assessment in \<open>ERROR_RECOVERY\<close>, and the
  current contract stays unset.
\<close>

theorem assessment_of_aware_contract:
  "ships home_context \<noteq> [] \<and>
   accepted aware_contract \<and> \<not> fulfilled aware_contract \<and> \<not> expired_at 0 aware_contract \<and>
   is_expired 0 aware_contract = Inl TypeError \<and>
   assess_execute 0
     (assess_responses_of (agent_data home_context) (ships home_context) [aware_contract])
     home_context = (ERROR_RECOVERY, home_context)"
  by (simp add: assess_execute_def update_contracts_def assess_responses_of_def
        update_agent_data_def aware_contract_def contract_of_def is_expired_def
        expired_at_def expiry_instant_def home_context_def context_of_def Let_def)

end
